theory Spec2Isabelle
  imports Main "HOL-Library.Word" "HOL-Library.Char_ord"
begin

section \<open>Basic types and library functions\<close>

text \<open>
  Go's \<open>int64\<close> and \<open>uint\<close> (64 bits on the supported platforms) are 64-bit words;
  \<open>sint\<close> reads the first, \<open>unat\<close> the second. Go strings are byte strings.
\<close>

type_synonym int64 = "64 word"
type_synonym uint = "64 word"

text \<open>
  Errors are values. \<open>Error msg\<close> is \<open>errors.New(msg)\<close> (and \<open>ctxerr.Errorf\<close>),
  \<open>Wrap err label\<close> is \<open>ctxerr.Wrap(ctx, err, label)\<close>, and \<open>StatusError code body\<close> is
  \<open>fmt.Errorf("freescout request failed: status %d: %s", code, body)\<close>.
  \<open>Panic\<close> is a run-time panic. The others are the errors of package \<open>net/url\<close>:
  \<open>URLError op url err\<close> is \<open>&url.Error{op, url, err}\<close>, \<open>EscapeError s\<close> and
  \<open>InvalidHostError s\<close> are the types of these names, and \<open>InvalidPort s\<close> is
  \<open>fmt.Errorf("invalid port %q after host", s)\<close>.
\<close>

datatype error =
  Error string
  | Wrap error string
  | StatusError nat string
  | Panic string
  | URLError string string error
  | EscapeError string
  | InvalidHostError string
  | InvalidPort string

text \<open>Decimal printing, as \<open>strconv.FormatInt(_, 10)\<close>, \<open>fmt.Sprint\<close> and the
  template engine print integers.\<close>

definition digit_char :: "nat \<Rightarrow> char" where
  "digit_char d = ''0123456789'' ! d"

function FormatUint :: "nat \<Rightarrow> string" where
  "FormatUint n = (if n < 10 then [digit_char n] else FormatUint (n div 10) @ [digit_char (n mod 10)])"
  by pat_completeness auto
termination
  by (relation "measure id") auto

declare FormatUint.simps [simp del]

definition FormatInt :: "int \<Rightarrow> string" where
  "FormatInt i = (if i < 0 then CHR ''-'' # FormatUint (nat (- i)) else FormatUint (nat i))"

text \<open>\<open>strings.HasPrefix\<close> and \<open>strings.HasSuffix\<close>.\<close>

definition hasPrefix :: "string \<Rightarrow> string \<Rightarrow> bool" where
  "hasPrefix s p = (take (length p) s = p)"

definition hasSuffix :: "string \<Rightarrow> string \<Rightarrow> bool" where
  "hasSuffix s p = (length p \<le> length s \<and> drop (length s - length p) s = p)"

text \<open>\<open>strings.TrimRight(s, cutset)\<close>: all trailing bytes of \<open>s\<close> that are in
  \<open>cutset\<close> are removed (the cut set of the client is ASCII).\<close>

definition TrimRight :: "string \<Rightarrow> string \<Rightarrow> string" where
  "TrimRight s cutset = rev (dropWhile (\<lambda>c. c \<in> set cutset) (rev s))"

text \<open>
  \<open>strings.TrimSpace\<close>: the leading and the trailing white space of Unicode is removed.
  \<open>spaceRunes\<close> holds the UTF-8 encodings of the white-space code points: tab, line
  feed, vertical tab, form feed, carriage return, space, U+0085, U+00A0, U+1680, U+2000
  to U+200A, U+2028, U+2029, U+202F, U+205F and U+3000. The first argument of the two
  loops bounds the number of their turns; the length of the string is enough.
\<close>

definition spaceRunes :: "string list" where
  "spaceRunes =
     [[CHR 0x09], [CHR 0x0A], [CHR 0x0B], [CHR 0x0C], [CHR 0x0D], [CHR 0x20],
      [CHR 0xC2, CHR 0x85], [CHR 0xC2, CHR 0xA0], [CHR 0xE1, CHR 0x9A, CHR 0x80]] @
     map (\<lambda>b. [CHR 0xE2, CHR 0x80, b])
       [CHR 0x80, CHR 0x81, CHR 0x82, CHR 0x83, CHR 0x84, CHR 0x85, CHR 0x86, CHR 0x87,
        CHR 0x88, CHR 0x89, CHR 0x8A, CHR 0xA8, CHR 0xA9, CHR 0xAF] @
     [[CHR 0xE2, CHR 0x81, CHR 0x9F], [CHR 0xE3, CHR 0x80, CHR 0x80]]"

primrec trimLeftSpace :: "nat \<Rightarrow> string \<Rightarrow> string" where
  "trimLeftSpace 0 s = s"
| "trimLeftSpace (Suc n) s =
     (case find (hasPrefix s) spaceRunes of
        None \<Rightarrow> s
      | Some q \<Rightarrow> trimLeftSpace n (drop (length q) s))"

primrec trimRightSpace :: "nat \<Rightarrow> string \<Rightarrow> string" where
  "trimRightSpace 0 s = s"
| "trimRightSpace (Suc n) s =
     (case find (hasSuffix s) spaceRunes of
        None \<Rightarrow> s
      | Some q \<Rightarrow> trimRightSpace n (take (length s - length q) s))"

definition TrimSpace :: "string \<Rightarrow> string" where
  "TrimSpace s = trimRightSpace (length s) (trimLeftSpace (length s) s)"

subsection \<open>The URL parser\<close>

text \<open>
  \<open>NewFreeScoutClient\<close> calls the standard library's \<open>url.Parse\<close> and reads the fields
  \<open>Scheme\<close> and \<open>Host\<close> of its result. The parser is a parameter of the constructor
  below, so every general theorem about the constructor holds for any parser.
\<close>

record parsedURL =
  Scheme :: string
  Host :: string

text \<open>
  \<open>url_Parse\<close> is a model of the library function, for the concrete examples. It follows
  the library's \<open>Parse\<close>, \<open>parse\<close>, \<open>getScheme\<close>, \<open>parseAuthority\<close>, \<open>parseHost\<close>,
  \<open>validOptionalPort\<close>, \<open>validUserinfo\<close>, \<open>shouldEscape\<close> and \<open>unescape\<close> as far as
  the two fields and the errors need them. One thing is left out: the zone of an IPv6
  literal is read as the rest of the host is.
\<close>

definition isAlpha :: "char \<Rightarrow> bool" where
  "isAlpha c = ((CHR ''a'' \<le> c \<and> c \<le> CHR ''z'') \<or> (CHR ''A'' \<le> c \<and> c \<le> CHR ''Z''))"

definition isDigit :: "char \<Rightarrow> bool" where
  "isDigit c = (CHR ''0'' \<le> c \<and> c \<le> CHR ''9'')"

definition isSchemeExtra :: "char \<Rightarrow> bool" where
  "isSchemeExtra c = (isDigit c \<or> c = CHR ''+'' \<or> c = CHR ''-'' \<or> c = CHR ''.'')"

text \<open>\<open>getScheme\<close>: the loop over the bytes of \<open>rawURL\<close>; \<open>acc\<close> holds the bytes read
  so far, all of them bytes of a scheme, so that \<open>i == 0\<close> is \<open>acc = []\<close>.\<close>

fun getScheme_loop :: "string \<Rightarrow> string \<Rightarrow> string \<Rightarrow> error + (string \<times> string)" where
  "getScheme_loop rawURL acc [] = Inr ('''', rawURL)"
| "getScheme_loop rawURL acc (c # cs) =
     (if isAlpha c then getScheme_loop rawURL (acc @ [c]) cs
      else if isSchemeExtra c then
        (if acc = [] then Inr ('''', rawURL) else getScheme_loop rawURL (acc @ [c]) cs)
      else if c = CHR '':'' then
        (if acc = [] then Inl (Error ''missing protocol scheme'') else Inr (acc, cs))
      else Inr ('''', rawURL))"

definition getScheme :: "string \<Rightarrow> error + (string \<times> string)" where
  "getScheme rawURL = getScheme_loop rawURL [] rawURL"

definition toLower :: "char \<Rightarrow> char" where
  "toLower c = (if CHR ''A'' \<le> c \<and> c \<le> CHR ''Z'' then char_of (of_char c + (32::nat)) else c)"

definition toUpper :: "char \<Rightarrow> char" where
  "toUpper c = (if CHR ''a'' \<le> c \<and> c \<le> CHR ''z'' then char_of (of_char c - (32::nat)) else c)"

definition isCTL :: "char \<Rightarrow> bool" where
  "isCTL c = (c < CHR '' '' \<or> c = CHR 0x7F)"

definition ishex :: "char \<Rightarrow> bool" where
  "ishex c = (isDigit c \<or> (CHR ''a'' \<le> c \<and> c \<le> CHR ''f'') \<or> (CHR ''A'' \<le> c \<and> c \<le> CHR ''F''))"

definition unhex :: "char \<Rightarrow> nat" where
  "unhex c =
     (if isDigit c then of_char c - 48
      else if CHR ''a'' \<le> c \<and> c \<le> CHR ''f'' then of_char c - 87
      else if CHR ''A'' \<le> c \<and> c \<le> CHR ''F'' then of_char c - 55
      else 0)"

text \<open>\<open>shouldEscape(c, encodeHost)\<close>: the bytes that a host must not hold as they
  are.\<close>

definition shouldEscapeHost :: "char \<Rightarrow> bool" where
  "shouldEscapeHost c =
     (\<not> (isAlpha c \<or> isDigit c \<or>
         c \<in> set ''!$&()*+,;=:[]<>-_.~'' \<or> c = CHR 0x27 \<or> c = CHR 0x22))"

text \<open>
  \<open>unescape(s, mode)\<close>, with \<open>host\<close> true for the mode \<open>encodeHost\<close> and false for the
  modes of a path, a fragment and a user name or password: a \<open>%\<close> must be followed by
  two hexadecimal digits; in a host an escape may only stand for a byte outside ASCII
  (or be \<open>%25\<close>), and an ASCII byte that a host must not hold is an error.
\<close>

fun unescape :: "bool \<Rightarrow> string \<Rightarrow> error + string" where
  "unescape host [] = Inr []"
| "unescape host (c # cs) =
     (if c = CHR ''%'' then
        (if length cs < 2 \<or> \<not> (ishex (cs ! 0) \<and> ishex (cs ! 1))
         then Inl (EscapeError (take 3 (c # cs)))
         else if host \<and> unhex (cs ! 0) < 8 \<and> take 2 cs \<noteq> ''25''
         then Inl (EscapeError (take 3 (c # cs)))
         else (case unescape host (drop 2 cs) of
                 Inl err \<Rightarrow> Inl err
               | Inr t \<Rightarrow> Inr (char_of (16 * unhex (cs ! 0) + unhex (cs ! 1)) # t)))
      else if host \<and> c < CHR 0x80 \<and> shouldEscapeHost c then Inl (InvalidHostError [c])
      else (case unescape host cs of Inl err \<Rightarrow> Inl err | Inr t \<Rightarrow> Inr (c # t)))"

definition validOptionalPort :: "string \<Rightarrow> bool" where
  "validOptionalPort port =
     (port = [] \<or> (hd port = CHR '':'' \<and> list_all isDigit (tl port)))"

definition validUserinfo :: "string \<Rightarrow> bool" where
  "validUserinfo s =
     list_all (\<lambda>c. isAlpha c \<or> isDigit c \<or> c \<in> set ''-._:~!$&()*+,;=%@'' \<or> c = CHR 0x27) s"

text \<open>The part of a string after the last occurrence of a byte, and the part before
  it; the whole string and nothing when the byte does not occur.\<close>

definition afterLast :: "char \<Rightarrow> string \<Rightarrow> string" where
  "afterLast b s = rev (takeWhile (\<lambda>c. c \<noteq> b) (rev s))"

definition uptoLast :: "char \<Rightarrow> string \<Rightarrow> string" where
  "uptoLast b s = (if b \<in> set s then take (length s - length (afterLast b s) - 1) s else [])"

text \<open>\<open>parseHost\<close>: the port is checked after the last \<open>]\<close> of an IPv6 literal, or
  from the last colon on.\<close>

definition parseHost :: "string \<Rightarrow> error + string" where
  "parseHost host =
     (if hasPrefix host ''[''
      then (if CHR '']'' \<notin> set host then Inl (Error (''missing '' @ [CHR 0x27, CHR '']'', CHR 0x27] @ '' in host''))
            else if validOptionalPort (afterLast CHR '']'' host) then unescape True host
            else Inl (InvalidPort (afterLast CHR '']'' host)))
      else if CHR '':'' \<in> set host \<and> \<not> validOptionalPort (CHR '':'' # afterLast CHR '':'' host)
      then Inl (InvalidPort (CHR '':'' # afterLast CHR '':'' host))
      else unescape True host)"

text \<open>\<open>parseAuthority\<close>, for the host: the user information before the last \<open>@\<close> is
  checked and its escapes must be well formed.\<close>

definition parseAuthority :: "string \<Rightarrow> error + string" where
  "parseAuthority authority =
     (if CHR ''@'' \<notin> set authority then parseHost authority
      else case parseHost (afterLast CHR ''@'' authority) of
        Inl err \<Rightarrow> Inl err
      | Inr host \<Rightarrow>
          if validUserinfo (uptoLast CHR ''@'' authority)
          then (case unescape False (uptoLast CHR ''@'' authority) of
                  Inl err \<Rightarrow> Inl err
                | Inr _ \<Rightarrow> Inr host)
          else Inl (Error ''net/url: invalid userinfo''))"

text \<open>\<open>parse(rawURL, false)\<close>, on the URL without its fragment.\<close>

definition url_parse :: "string \<Rightarrow> error + parsedURL" where
  "url_parse u =
    (if list_ex isCTL u then Inl (Error ''net/url: invalid control character in URL'')
     else if u = ''*'' then Inr \<lparr>Scheme = '''', Host = ''''\<rparr>
     else case getScheme u of
       Inl err \<Rightarrow> Inl err
     | Inr (scheme0, rest0) \<Rightarrow>
        (let scheme = map toLower scheme0;
             rest = takeWhile (\<lambda>c. c \<noteq> CHR ''?'') rest0 in
         if \<not> hasPrefix rest ''/'' \<and> scheme \<noteq> '''' then Inr \<lparr>Scheme = scheme, Host = ''''\<rparr>
         else if \<not> hasPrefix rest ''/'' \<and> CHR '':'' \<in> set (takeWhile (\<lambda>c. c \<noteq> CHR ''/'') rest)
           then Inl (Error ''first path segment in URL cannot contain colon'')
         else if \<not> (scheme = '''' \<and> hasPrefix rest ''///'') \<and> hasPrefix rest ''//''
           then (case parseAuthority (takeWhile (\<lambda>c. c \<noteq> CHR ''/'') (drop 2 rest)) of
                   Inl err \<Rightarrow> Inl err
                 | Inr host \<Rightarrow>
                     (case unescape False (dropWhile (\<lambda>c. c \<noteq> CHR ''/'') (drop 2 rest)) of
                        Inl err \<Rightarrow> Inl err
                      | Inr _ \<Rightarrow> Inr \<lparr>Scheme = scheme, Host = host\<rparr>))
         else (case unescape False rest of
                 Inl err \<Rightarrow> Inl err
               | Inr _ \<Rightarrow> Inr \<lparr>Scheme = scheme, Host = ''''\<rparr>)))"

text \<open>\<open>Parse\<close>: the fragment is cut off at the first \<open>#\<close>; an error of \<open>parse\<close> is
  wrapped with the URL without the fragment, an error of the fragment's escapes with the
  whole URL.\<close>

definition url_Parse :: "string \<Rightarrow> error + parsedURL" where
  "url_Parse rawURL =
    (let u = takeWhile (\<lambda>c. c \<noteq> CHR ''#'') rawURL;
         frag = drop (length u + 1) rawURL in
     case url_parse u of
       Inl err \<Rightarrow> Inl (URLError ''parse'' u err)
     | Inr url \<Rightarrow>
         (case unescape False frag of
            Inl err \<Rightarrow> Inl (URLError ''parse'' rawURL err)
          | Inr _ \<Rightarrow> Inr url))"

section \<open>The FreeScout API client (package externalsvc)\<close>

text \<open>\<open>FreeScoutOptions\<close> defines the options to configure a FreeScout client.\<close>

record FreeScoutOptions =
  URL :: string
  APIToken :: string
  MailboxID :: int64
  CustomerEmail :: string
  AssignTo :: int64

text \<open>
  The client struct \<open>FreeScout\<close> of package externalsvc. Its other field, the
  \<open>*http.Client\<close>, holds no configuration; it is the parameter \<open>client\<close> of the methods
  that send requests.
\<close>

record externalsvc_FreeScout =
  opts :: FreeScoutOptions

text \<open>
  \<open>NewFreeScoutClient\<close>. The options pointer may be nil (\<open>None\<close>). The stored options
  are a copy of the given ones with the trailing slashes of the URL removed.
\<close>

definition NewFreeScoutClient ::
  "(string \<Rightarrow> error + parsedURL) \<Rightarrow> FreeScoutOptions option \<Rightarrow> error + externalsvc_FreeScout" where
  "NewFreeScoutClient parse optsPtr =
    (case optsPtr of
       None \<Rightarrow> Inl (Error ''missing FreeScout options'')
     | Some os \<Rightarrow>
        if URL os = '''' then Inl (Error ''missing FreeScout URL'')
        else case parse (URL os) of
          Inl err \<Rightarrow> Inl err
        | Inr parsed \<Rightarrow>
            if Scheme parsed = '''' \<or> Host parsed = '''' then Inl (Error ''invalid FreeScout URL'')
            else Inr \<lparr>opts = os\<lparr>URL := TrimRight (URL os) ''/''\<rparr>\<rparr>)"

text \<open>
  \<open>FreeScoutConfigMatches\<close>: \<open>f.opts == *opts\<close>, Go's equality of structs, field by
  field. The caller passes a non-nil pointer.
\<close>

definition FreeScoutConfigMatches :: "externalsvc_FreeScout \<Rightarrow> FreeScoutOptions \<Rightarrow> bool" where
  "FreeScoutConfigMatches f os = (opts f = os)"

subsection \<open>Requests and responses\<close>

text \<open>The JSON payloads of the requests, and the response of the search.\<close>

record freeScoutCustomer =
  Email :: string

record freeScoutThread =
  Text :: string
  Type :: string
  Customer :: "freeScoutCustomer option"

record freeScoutThreadPayload =
  Type :: string
  Text :: string
  Customer :: "freeScoutCustomer option"
  Imported :: bool
  Status :: string

record freeScoutConversationPayload =
  Type :: string
  MailboxID :: int64
  Subject :: string
  Customer :: "freeScoutCustomer option"
  Threads :: "freeScoutThread list"
  Imported :: bool
  AssignTo :: "int64 option"
  Status :: string

record freeScoutConversation =
  ID :: int64

text \<open>\<open>freeScoutConversationsResponse\<close>: the list is the field
  \<open>Embedded.Conversations\<close>.\<close>

record freeScoutConversationsResponse =
  Conversations :: "freeScoutConversation list"

text \<open>
  A request, as the client builds it: the method, the endpoint up to the query, the
  query parameters before \<open>params.Encode()\<close> (which sorts them by key and escapes them),
  the headers in the order they are set, and the body before \<open>json.Marshal\<close> (which
  cannot fail on these structs).
\<close>

datatype requestBody =
  NoBody
  | ConversationBody freeScoutConversationPayload
  | ThreadBody freeScoutThreadPayload

record request =
  Method :: string
  Endpoint :: string
  Params :: "(string \<times> string) list"
  Header :: "(string \<times> string) list"
  Body :: requestBody

text \<open>
  A response: the status code (a Go \<open>int\<close> that is never negative), the headers, the
  body as text, and the result of decoding the body as a
  \<open>freeScoutConversationsResponse\<close>.
\<close>

record response =
  StatusCode :: nat
  RespHeader :: "(string \<times> string) list"
  RespBody :: string
  RespJSON :: "error + freeScoutConversationsResponse"

text \<open>
  \<open>textproto.CanonicalMIMEHeaderKey\<close>: a name made of token bytes only gets an upper
  case letter at its start and after each hyphen, and lower case letters elsewhere; any
  other name stays as it is.
\<close>

definition validHeaderFieldByte :: "char \<Rightarrow> bool" where
  "validHeaderFieldByte c =
     (isAlpha c \<or> isDigit c \<or> c \<in> set ''!#$%&*+-.^_|~'' \<or> c = CHR 0x27 \<or> c = CHR 0x60)"

fun canonicalLoop :: "bool \<Rightarrow> string \<Rightarrow> string" where
  "canonicalLoop upper [] = []"
| "canonicalLoop upper (c # cs) =
     (let c' = (if upper then toUpper c else toLower c) in
      c' # canonicalLoop (c' = CHR ''-'') cs)"

definition CanonicalMIMEHeaderKey :: "string \<Rightarrow> string" where
  "CanonicalMIMEHeaderKey s = (if list_all validHeaderFieldByte s then canonicalLoop True s else s)"

text \<open>\<open>resp.Header.Get(key)\<close>: the first value under the canonical form of the name,
  the empty string when there is none. The header of a response holds the names in
  their canonical form, as the library stores them when it reads the response.\<close>

definition headerGet :: "(string \<times> string) list \<Rightarrow> string \<Rightarrow> string" where
  "headerGet h key = (case map_of h (CanonicalMIMEHeaderKey key) of None \<Rightarrow> [] | Some v \<Rightarrow> v)"

text \<open>
  The world is the list of the requests handed to the HTTP client so far, oldest first. The
  \<open>*http.Client\<close> and the server behind it are a function \<open>client\<close> from the requests
  sent before and the request at hand to an error or a response. \<open>httpDo\<close> stands for
  \<open>http.NewRequestWithContext\<close> followed by \<open>f.client.Do\<close>: the methods return the
  error of either unchanged.
\<close>

type_synonym world = "request list"
type_synonym httpClient = "request list \<Rightarrow> request \<Rightarrow> error + response"

definition httpDo :: "httpClient \<Rightarrow> request \<Rightarrow> world \<Rightarrow> (error + response) \<times> world" where
  "httpDo client req w = (client w req, w @ [req])"

definition apiHeaders :: "externalsvc_FreeScout \<Rightarrow> (string \<times> string) list" where
  "apiHeaders f =
     [(''X-FreeScout-API-Key'', APIToken (opts f)), (''Content-Type'', ''application/json'')]"

text \<open>\<open>strconv.ParseInt(s, 10, 64)\<close>: an optional sign, then one decimal digit or more;
  \<open>None\<close> is the syntax or range error.\<close>

definition digitsValue :: "string \<Rightarrow> int" where
  "digitsValue ds = foldl (\<lambda>n c. 10 * n + (of_char c - 48)) 0 ds"

definition ParseInt :: "string \<Rightarrow> int64 option" where
  "ParseInt s =
    (let neg = (s \<noteq> [] \<and> hd s = CHR ''-'');
         ds = (if s \<noteq> [] \<and> (hd s = CHR ''+'' \<or> hd s = CHR ''-'') then tl s else s) in
     if ds = [] then None
     else if list_ex (\<lambda>c. \<not> isDigit c) ds then None
     else if neg then (if 2 ^ 63 < digitsValue ds then None else Some (word_of_int (- digitsValue ds)))
     else (if 2 ^ 63 \<le> digitsValue ds then None else Some (word_of_int (digitsValue ds))))"

subsection \<open>Creating a conversation\<close>

text \<open>The request of the search for an active conversation with this subject.\<close>

definition searchRequest :: "externalsvc_FreeScout \<Rightarrow> string \<Rightarrow> request" where
  "searchRequest f subject =
    (let params =
           [(''embed'', ''threads''),
            (''mailboxId'', FormatInt (sint (FreeScoutOptions.MailboxID (opts f)))),
            (''status'', ''active''),
            (''state'', ''published''),
            (''type'', ''email''),
            (''customerEmail'', CustomerEmail (opts f)),
            (''subject'', subject),
            (''sortField'', ''updatedAt''),
            (''sortOrder'', ''asc''),
            (''page'', ''1''),
            (''pageSize'', ''1'')] in
     \<lparr>Method = ''GET'', Endpoint = URL (opts f) @ ''/api/conversations'', Params = params,
      Header = apiHeaders f, Body = NoBody\<rparr>)"

text \<open>\<open>findExistingConversationID\<close>: the identifier of the first conversation of the
  response; 0 when the response has none.\<close>

definition findExistingConversationID ::
  "httpClient \<Rightarrow> externalsvc_FreeScout \<Rightarrow> string \<Rightarrow> world \<Rightarrow> (error + int64) \<times> world" where
  "findExistingConversationID client f subject w =
    (case httpDo client (searchRequest f subject) w of
       (Inl err, w') \<Rightarrow> (Inl err, w')
     | (Inr resp, w') \<Rightarrow>
         if StatusCode resp div 100 \<noteq> 2
         then (Inl (StatusError (StatusCode resp) (TrimSpace (RespBody resp))), w')
         else (case RespJSON resp of
                 Inl err \<Rightarrow> (Inl err, w')
               | Inr payload \<Rightarrow>
                   (case Conversations payload of
                      [] \<Rightarrow> (Inr 0, w')
                    | c # _ \<Rightarrow> (Inr (freeScoutConversation.ID c), w'))))"

text \<open>The request that appends a thread to a conversation.\<close>

definition threadRequest :: "externalsvc_FreeScout \<Rightarrow> int64 \<Rightarrow> string \<Rightarrow> request" where
  "threadRequest f conversationID message =
    (let payload = \<lparr>freeScoutThreadPayload.Type = ''customer'',
                    freeScoutThreadPayload.Text = message,
                    freeScoutThreadPayload.Customer = Some \<lparr>Email = CustomerEmail (opts f)\<rparr>,
                    freeScoutThreadPayload.Imported = False,
                    freeScoutThreadPayload.Status = ''active''\<rparr> in
     \<lparr>Method = ''POST'',
      Endpoint = URL (opts f) @ ''/api/conversations/'' @ FormatInt (sint conversationID) @ ''/threads'',
      Params = [], Header = apiHeaders f, Body = ThreadBody payload\<rparr>)"

text \<open>\<open>createFreeScoutThread\<close>: \<open>None\<close> is the nil error.\<close>

definition createFreeScoutThread ::
  "httpClient \<Rightarrow> externalsvc_FreeScout \<Rightarrow> int64 \<Rightarrow> string \<Rightarrow> world \<Rightarrow> error option \<times> world" where
  "createFreeScoutThread client f conversationID message w =
    (case httpDo client (threadRequest f conversationID message) w of
       (Inl err, w') \<Rightarrow> (Some err, w')
     | (Inr resp, w') \<Rightarrow>
         if StatusCode resp div 100 \<noteq> 2
         then (Some (StatusError (StatusCode resp) (TrimSpace (RespBody resp))), w')
         else (None, w'))"

text \<open>The request that creates a conversation with its first thread.\<close>

definition createConversationRequest :: "externalsvc_FreeScout \<Rightarrow> string \<Rightarrow> string \<Rightarrow> request" where
  "createConversationRequest f subject message =
    (let payload = \<lparr>freeScoutConversationPayload.Type = ''email'',
                    freeScoutConversationPayload.MailboxID = FreeScoutOptions.MailboxID (opts f),
                    Subject = subject,
                    freeScoutConversationPayload.Customer = Some \<lparr>Email = CustomerEmail (opts f)\<rparr>,
                    Threads = [\<lparr>freeScoutThread.Text = message, freeScoutThread.Type = ''customer'',
                                freeScoutThread.Customer = Some \<lparr>Email = CustomerEmail (opts f)\<rparr>\<rparr>],
                    freeScoutConversationPayload.Imported = False,
                    freeScoutConversationPayload.AssignTo =
                      (if 0 <s FreeScoutOptions.AssignTo (opts f)
                       then Some (FreeScoutOptions.AssignTo (opts f)) else None),
                    freeScoutConversationPayload.Status = ''active''\<rparr> in
     \<lparr>Method = ''POST'', Endpoint = URL (opts f) @ ''/api/conversations'', Params = [],
      Header = apiHeaders f, Body = ConversationBody payload\<rparr>)"

text \<open>
  \<open>CreateFreeScoutConversation\<close>. The repository holds two files of the client. Both
  have the same constructor and the same \<open>FreeScoutConfigMatches\<close>; the definition
  here follows the file that searches for an existing conversation first (the other
  one always creates a conversation).
\<close>

definition CreateFreeScoutConversation ::
  "httpClient \<Rightarrow> externalsvc_FreeScout \<Rightarrow> string \<Rightarrow> string \<Rightarrow> world \<Rightarrow> (error + int64) \<times> world" where
  "CreateFreeScoutConversation client f subject message w =
    (case findExistingConversationID client f subject w of
       (Inl err, w1) \<Rightarrow> (Inl err, w1)
     | (Inr existingID, w1) \<Rightarrow>
         if 0 <s existingID then
           (case createFreeScoutThread client f existingID message w1 of
              (Some err, w2) \<Rightarrow> (Inl err, w2)
            | (None, w2) \<Rightarrow> (Inr existingID, w2))
         else
           (case httpDo client (createConversationRequest f subject message) w1 of
              (Inl err, w2) \<Rightarrow> (Inl err, w2)
            | (Inr resp, w2) \<Rightarrow>
                if StatusCode resp div 100 \<noteq> 2
                then (Inl (StatusError (StatusCode resp) (TrimSpace (RespBody resp))), w2)
                else (let resourceID = headerGet (RespHeader resp) ''Resource-ID'' in
                      if resourceID = [] then (Inr 0, w2)
                      else (case ParseInt resourceID of
                              None \<Rightarrow> (Inr 0, w2)
                            | Some n \<Rightarrow> (Inr n, w2)))))"

section \<open>The job processor (package worker)\<close>

subsection \<open>Configuration and collaborators\<close>

text \<open>
  The types of package fleet are declared outside the files at hand; each record below
  has the fields that the job processor reads. The fields of an integration entry are
  prefixed with \<open>Intg\<close> where \<open>FreeScoutOptions\<close> has a field of the same name.
\<close>

record FreeScoutIntegration =
  IntgURL :: string
  IntgAPIToken :: string
  IntgMailboxID :: int64
  IntgCustomerEmail :: string
  IntgAssignTo :: int64
  EnableSoftwareVulnerabilities :: bool
  EnableFailingPolicies :: bool

record Integrations =
  Freescout :: "FreeScoutIntegration list"

record AppConfig =
  Integrations :: Integrations

record HostVulnerabilitySummary =
  ID :: uint
  DisplayName :: string
  SoftwareInstalledPaths :: "string list"

record PolicySetHost =
  ID :: uint
  DisplayName :: string

text \<open>
  The datastore, as the functions of \<open>fleet.Datastore\<close> that the processor calls, each
  a pure function of the datastore's content at the time of the call. \<open>'t\<close> is the type
  of a team as \<open>TeamLite\<close> returns it.
\<close>

record 't Datastore =
  AppConfig :: "error + AppConfig"
  TeamLite :: "uint \<Rightarrow> error + 't"
  HostsByCVE :: "string \<Rightarrow> error + HostVulnerabilitySummary list"
  HostVulnSummariesBySoftwareIDs :: "uint list \<Rightarrow> error + HostVulnerabilitySummary list"

text \<open>Go's \<open>float64\<close> and \<open>time.Time\<close>: the processor only passes them on and prints
  them, through \<open>fmtFloat\<close> and \<open>fmtTime\<close> below.\<close>

typedecl float64
typedecl time_Time

text \<open>The job arguments. \<open>vulnArgs\<close> and \<open>failingPolicyArgs\<close> have the fields that
  the queueing functions set and the processor reads.\<close>

record vulnArgs =
  CVE :: string
  AffectedSoftwareIDs :: "uint list"
  EPSSProbability :: "float64 option"
  CVSSScore :: "float64 option"
  CISAKnownExploit :: "bool option"
  CVEPublished :: "time_Time option"

record failingPolicyArgs =
  PolicyID :: uint
  PolicyName :: string
  PolicyCritical :: bool
  TeamID :: "uint option"
  Hosts :: "PolicySetHost list"

record freeScoutArgs =
  Vulnerability :: "vulnArgs option"
  FailingPolicy :: "failingPolicyArgs option"

text \<open>The two integration types. The constants are declared outside the files at hand;
  their values are those of the comment on \<open>clientsCache\<close>: "vuln:123",
  "failingPolicy:".\<close>

definition intgTypeVuln :: string where
  "intgTypeVuln = ''vuln''"

definition intgTypeFailingPolicy :: string where
  "intgTypeFailingPolicy = ''failingPolicy''"

definition integrationType :: "freeScoutArgs \<Rightarrow> string" where
  "integrationType a = (if FailingPolicy a = None then intgTypeVuln else intgTypeFailingPolicy)"

subsection \<open>The client interface and the processor's state\<close>

text \<open>
  The interface \<open>FreeScoutClient\<close>: a client is a value of type \<open>'c\<close>, and the two
  methods of the interface are the fields of this record. \<open>'w\<close> is the state of the
  world that creating a conversation changes. An interface value may be nil: \<open>None\<close>.
\<close>

record ('c, 'w) FreeScoutClient =
  clientCreateConversation :: "'c \<Rightarrow> string \<Rightarrow> string \<Rightarrow> 'w \<Rightarrow> (error + int64) \<times> 'w"
  clientConfigMatches :: "'c \<Rightarrow> FreeScoutOptions \<Rightarrow> bool"

text \<open>
  The struct \<open>FreeScout\<close> of package worker. \<open>clientsCache\<close> is a Go map that may be
  nil (\<open>None\<close>). The logger is left out; the mutex has no sequential content.
  \<open>newClientCalls\<close> is not a field of the struct: it records the arguments of the calls
  of \<open>NewClientFunc\<close>, oldest first, so that theorems can count them.
\<close>

record ('c, 't) worker_FreeScout =
  FleetURL :: string
  Datastore :: "'t Datastore"
  NewClientFunc :: "FreeScoutOptions \<Rightarrow> error + 'c option"
  clientsCache :: "(string \<rightharpoonup> 'c option) option"
  newClientCalls :: "FreeScoutOptions list"

text \<open>The entries of the cache; a nil map reads as an empty one.\<close>

definition cacheEntries :: "(string \<rightharpoonup> 'c option) option \<Rightarrow> (string \<rightharpoonup> 'c option)" where
  "cacheEntries c = (case c of None \<Rightarrow> Map.empty | Some m \<Rightarrow> m)"

text \<open>\<open>f.clientsCache[key]\<close>: the nil interface when the key is absent.\<close>

definition cacheLookup :: "(string \<rightharpoonup> 'c option) \<Rightarrow> string \<Rightarrow> 'c option" where
  "cacheLookup m key = (case m key of None \<Rightarrow> None | Some cli \<Rightarrow> cli)"

subsection \<open>getClient\<close>

text \<open>The options that \<open>getClient\<close> builds from an integration entry.\<close>

definition optionsOf :: "FreeScoutIntegration \<Rightarrow> FreeScoutOptions" where
  "optionsOf intg =
     \<lparr>URL = IntgURL intg, APIToken = IntgAPIToken intg,
      FreeScoutOptions.MailboxID = IntgMailboxID intg,
      CustomerEmail = IntgCustomerEmail intg, FreeScoutOptions.AssignTo = IntgAssignTo intg\<rparr>"

text \<open>
  The part of \<open>getClient\<close> that runs with the mutex held: from \<open>f.mu.Lock()\<close> to the
  end. It returns the result and the processor with its cache updated.
\<close>

definition getClient_locked ::
  "('c, 'w) FreeScoutClient \<Rightarrow> ('c, 't) worker_FreeScout \<Rightarrow> string \<Rightarrow> FreeScoutOptions option
     \<Rightarrow> (error + 'c option) \<times> ('c, 't) worker_FreeScout" where
  "getClient_locked iface f key optsPtr =
    (let cache = cacheEntries (clientsCache f) in
     case optsPtr of
       None \<Rightarrow> (Inr None, f\<lparr>clientsCache := Some (cache(key := None))\<rparr>)
     | Some os \<Rightarrow>
        (let cli = cacheLookup cache key in
         if (case cli of None \<Rightarrow> False | Some c \<Rightarrow> clientConfigMatches iface c os)
         then (Inr cli, f\<lparr>clientsCache := Some cache\<rparr>)
         else
           (case NewClientFunc f os of
              Inl err \<Rightarrow> (Inl err, f\<lparr>clientsCache := Some cache,
                                       newClientCalls := newClientCalls f @ [os]\<rparr>)
            | Inr cli' \<Rightarrow> (Inr cli', f\<lparr>clientsCache := Some (cache(key \<mapsto> cli')),
                                       newClientCalls := newClientCalls f @ [os]\<rparr>))))"

text \<open>
  \<open>getClient\<close> up to \<open>f.mu.Lock()\<close>: the key, and the configuration that a client
  would be built from. \<open>MatchWithIntegrations\<close> is the method of the team's integrations
  that is declared outside the files at hand; it is a parameter. Each loop over the
  integration entries stops at the first enabled one: \<open>find\<close>.
\<close>

definition getClient_resolve ::
  "('t \<Rightarrow> Integrations \<Rightarrow> error + Integrations) \<Rightarrow> ('c, 't) worker_FreeScout \<Rightarrow> freeScoutArgs
     \<Rightarrow> error + (string \<times> FreeScoutOptions option)" where
  "getClient_resolve MatchWithIntegrations f args =
    (let intgType = integrationType args;
         teamID = (if intgType = intgTypeFailingPolicy
                   then (case FailingPolicy args of None \<Rightarrow> None | Some fp \<Rightarrow> TeamID fp) else None);
         key = (case teamID of
                  None \<Rightarrow> intgType @ '':''
                | Some tid \<Rightarrow> intgType @ '':'' @ FormatUint (unat tid)) in
     case AppConfig (Datastore f) of
       Inl err \<Rightarrow> Inl err
     | Inr ac \<Rightarrow>
        (case teamID of
           Some tid \<Rightarrow>
            (case TeamLite (Datastore f) tid of
               Inl err \<Rightarrow> Inl err
             | Inr tm \<Rightarrow>
                (case MatchWithIntegrations tm (Integrations ac) of
                   Inl err \<Rightarrow> Inl err
                 | Inr intgs \<Rightarrow>
                     Inr (key,
                       map_option optionsOf
                         (find (\<lambda>intg. intgType = intgTypeFailingPolicy \<and> EnableFailingPolicies intg)
                            (Freescout intgs)))))
         | None \<Rightarrow>
             Inr (key,
               map_option optionsOf
                 (find (\<lambda>intg. (intgType = intgTypeVuln \<and> EnableSoftwareVulnerabilities intg) \<or>
                                 (intgType = intgTypeFailingPolicy \<and> EnableFailingPolicies intg))
                    (Freescout (Integrations ac))))))"

text \<open>\<open>getClient\<close>: an error of the datastore is returned before the cache is touched.\<close>

definition getClient ::
  "('c, 'w) FreeScoutClient \<Rightarrow> ('t \<Rightarrow> Integrations \<Rightarrow> error + Integrations) \<Rightarrow>
   ('c, 't) worker_FreeScout \<Rightarrow> freeScoutArgs \<Rightarrow> (error + 'c option) \<times> ('c, 't) worker_FreeScout" where
  "getClient iface MatchWithIntegrations f args =
    (case getClient_resolve MatchWithIntegrations f args of
       Inl err \<Rightarrow> (Inl err, f)
     | Inr (key, optsPtr) \<Rightarrow> getClient_locked iface f key optsPtr)"

subsection \<open>The message templates\<close>

text \<open>
  The four templates of \<open>freeScoutTemplates\<close>, each as the function from its arguments
  to the text that \<open>Execute\<close> writes. \<open>text/template\<close> copies the text between the
  actions as it is, line feeds included, and prints an integer in decimal. A pointer is
  true in an \<open>if\<close> when it is not nil. \<open>fmtFloat\<close> and \<open>fmtTime\<close> are the engine's
  printing of a \<open>float64\<close> and of a \<open>time.Time\<close>.
\<close>

record freeScoutVulnTplArgs =
  NVDURL :: string
  FleetURL :: string
  CVE :: string
  Hosts :: "HostVulnerabilitySummary list"
  EPSSProbability :: "float64 option"
  CVSSScore :: "float64 option"
  CISAKnownExploit :: "bool option"
  CVEPublished :: "time_Time option"

text \<open>Modelled from the spec: the struct \<open>failingPoliciesTplArgs\<close> and its constructor
  \<open>newFailingPoliciesTplArgs\<close> are declared outside the files at hand. The record has
  the fields that the failing-policy templates read, and the constructor copies them
  from the job arguments, whose fields have the same names.\<close>

record failingPoliciesTplArgs =
  FleetURL :: string
  PolicyID :: uint
  PolicyName :: string
  PolicyCritical :: bool
  TeamID :: "uint option"
  Hosts :: "PolicySetHost list"

definition newFailingPoliciesTplArgs :: "string \<Rightarrow> failingPolicyArgs \<Rightarrow> failingPoliciesTplArgs" where
  "newFailingPoliciesTplArgs fleetURL args =
     \<lparr>failingPoliciesTplArgs.FleetURL = fleetURL,
      failingPoliciesTplArgs.PolicyID = failingPolicyArgs.PolicyID args,
      failingPoliciesTplArgs.PolicyName = failingPolicyArgs.PolicyName args,
      failingPoliciesTplArgs.PolicyCritical = failingPolicyArgs.PolicyCritical args,
      failingPoliciesTplArgs.TeamID = failingPolicyArgs.TeamID args,
      failingPoliciesTplArgs.Hosts = failingPolicyArgs.Hosts args\<rparr>"

definition nl :: string where
  "nl = [CHR 0x0A]"

definition dquote :: string where
  "dquote = [CHR 0x22]"

text \<open>\<open>{{ $end := len .Hosts }}{{ if gt $end 50 }}{{ $end = 50 }}{{ end }}\<close> and
  \<open>slice .Hosts 0 $end\<close>: the hosts that the body lists. The bound is at most the
  length, so the slice cannot fail.\<close>

definition listedHosts :: "'h list \<Rightarrow> 'h list" where
  "listedHosts hosts =
     (let end0 = length hosts;
          end1 = (if 50 < end0 then 50 else end0) in
      take end1 hosts)"

definition VulnSummary :: "freeScoutVulnTplArgs \<Rightarrow> string" where
  "VulnSummary a =
     ''Vulnerability '' @ freeScoutVulnTplArgs.CVE a @ '' detected on '' @
     FormatUint (length (freeScoutVulnTplArgs.Hosts a)) @ '' host(s)''"

text \<open>One turn of the \<open>range\<close> over the hosts of the vulnerability body.\<close>

definition vulnHostItem :: "string \<Rightarrow> HostVulnerabilitySummary \<Rightarrow> string" where
  "vulnHostItem fleetURL h =
     nl @ ''* ['' @ HostVulnerabilitySummary.DisplayName h @ '']('' @ fleetURL @ ''/hosts/'' @
     FormatUint (unat (HostVulnerabilitySummary.ID h)) @ '')'' @ nl @
     concat (map (\<lambda>path. nl @ ''    * '' @ path @ nl) (SoftwareInstalledPaths h)) @ nl"

text \<open>The vulnerability body: the text before the \<open>range\<close> over the hosts, the
  \<open>range\<close>, and the text after it.\<close>

definition vulnDescriptionHead ::
  "(float64 \<Rightarrow> string) \<Rightarrow> (time_Time \<Rightarrow> string) \<Rightarrow> freeScoutVulnTplArgs \<Rightarrow> string" where
  "vulnDescriptionHead fmtFloat fmtTime a =
     ''See vulnerability (CVE) details in National Vulnerability Database (NVD) here: ['' @
     freeScoutVulnTplArgs.CVE a @ '']('' @ NVDURL a @ freeScoutVulnTplArgs.CVE a @ '').'' @ nl @ nl @
     (case freeScoutVulnTplArgs.EPSSProbability a of
        None \<Rightarrow> []
      | Some p \<Rightarrow> nl @ ''Probability of exploit (reported by [FIRST.org/epss](https://www.first.org/epss/)): '' @
          fmtFloat p @ nl) @ nl @
     (case freeScoutVulnTplArgs.CVSSScore a of
        None \<Rightarrow> []
      | Some s \<Rightarrow> ''CVSS score (reported by [NVD](https://nvd.nist.gov/)): '' @ fmtFloat s @ nl) @ nl @
     (case freeScoutVulnTplArgs.CVEPublished a of
        None \<Rightarrow> []
      | Some t \<Rightarrow> ''Published (reported by [NVD](https://nvd.nist.gov/)): '' @ fmtTime t @ nl) @ nl @
     (case freeScoutVulnTplArgs.CISAKnownExploit a of
        None \<Rightarrow> []
      | Some b \<Rightarrow>
          ''Known exploits (reported by [CISA](https://www.cisa.gov/known-exploited-vulnerabilities-catalog)): '' @
          (if b then ''Yes'' else ''No'') @ nl) @ nl @
     nl @ ''Affected hosts:'' @ nl @ nl @
     nl"

definition vulnDescriptionTail :: "freeScoutVulnTplArgs \<Rightarrow> string" where
  "vulnDescriptionTail a =
     nl @
     nl @ ''View the affected software and more affected hosts:'' @ nl @ nl @
     ''1. Go to the [Software]('' @ freeScoutVulnTplArgs.FleetURL a @ ''/software/manage) page in Fleet.'' @ nl @
     ''2. Above the list of software, in the **Search software** box, enter '' @ dquote @
       freeScoutVulnTplArgs.CVE a @ dquote @ ''.'' @ nl @
     ''3. Hover over the affected software and select **View all hosts**.'' @ nl @ nl @
     ''----'' @ nl @ nl @
     ''This conversation was created automatically by your Fleet FreeScout integration.'' @ nl"

definition VulnDescription ::
  "(float64 \<Rightarrow> string) \<Rightarrow> (time_Time \<Rightarrow> string) \<Rightarrow> freeScoutVulnTplArgs \<Rightarrow> string" where
  "VulnDescription fmtFloat fmtTime a =
     vulnDescriptionHead fmtFloat fmtTime a @
     concat (map (vulnHostItem (freeScoutVulnTplArgs.FleetURL a)) (listedHosts (freeScoutVulnTplArgs.Hosts a))) @
     vulnDescriptionTail a"

definition FailingPolicySummary :: "failingPoliciesTplArgs \<Rightarrow> string" where
  "FailingPolicySummary a =
     failingPoliciesTplArgs.PolicyName a @ '' policy failed on '' @
     FormatUint (length (failingPoliciesTplArgs.Hosts a)) @ '' host(s)''"

text \<open>One turn of the \<open>range\<close> over the hosts of the failing-policy body.\<close>

definition policyHostItem :: "string \<Rightarrow> PolicySetHost \<Rightarrow> string" where
  "policyHostItem fleetURL h =
     nl @ ''* ['' @ PolicySetHost.DisplayName h @ '']('' @ fleetURL @ ''/hosts/'' @
     FormatUint (unat (PolicySetHost.ID h)) @ '')'' @ nl"

text \<open>The failing-policy body, in the same three parts.\<close>

definition failingPolicyDescriptionHead :: "failingPoliciesTplArgs \<Rightarrow> string" where
  "failingPolicyDescriptionHead a =
     (if failingPoliciesTplArgs.PolicyCritical a
      then ''This policy is marked as **Critical** in Fleet.'' @ nl @ nl else []) @
     ''Hosts:'' @ nl @
     nl"

definition failingPolicyDescriptionTail :: "failingPoliciesTplArgs \<Rightarrow> string" where
  "failingPolicyDescriptionTail a =
     nl @
     nl @ ''View hosts that failed '' @ failingPoliciesTplArgs.PolicyName a @ '' on the [**Hosts**]('' @
     failingPoliciesTplArgs.FleetURL a @ ''/hosts/manage/?order_key=hostname&order_direction=asc&'' @
     (case failingPoliciesTplArgs.TeamID a of
        None \<Rightarrow> []
      | Some tid \<Rightarrow> ''team_id='' @ FormatUint (unat tid) @ ''&'') @
     ''policy_id='' @ FormatUint (unat (failingPoliciesTplArgs.PolicyID a)) @
     ''&policy_response=failing) page in Fleet.'' @ nl @ nl @
     ''----'' @ nl @ nl @
     ''This conversation was created automatically by your Fleet FreeScout integration.'' @ nl"

definition FailingPolicyDescription :: "failingPoliciesTplArgs \<Rightarrow> string" where
  "FailingPolicyDescription a =
     failingPolicyDescriptionHead a @
     concat (map (policyHostItem (failingPoliciesTplArgs.FleetURL a)) (listedHosts (failingPoliciesTplArgs.Hosts a))) @
     failingPolicyDescriptionTail a"

subsection \<open>Run\<close>

text \<open>
  \<open>createTemplatedConversation\<close>. A template is a function from the arguments to an
  error or the text written; the four templates above never fail.
\<close>

definition createTemplatedConversation ::
  "('c, 'w) FreeScoutClient \<Rightarrow> 'c \<Rightarrow> ('a \<Rightarrow> error + string) \<Rightarrow> ('a \<Rightarrow> error + string) \<Rightarrow> 'a \<Rightarrow> 'w
     \<Rightarrow> (error + int64) \<times> 'w" where
  "createTemplatedConversation iface cli summaryTpl descTpl args w =
    (case summaryTpl args of
       Inl err \<Rightarrow> (Inl (Wrap err ''execute summary template''), w)
     | Inr summary \<Rightarrow>
        (case descTpl args of
           Inl err \<Rightarrow> (Inl (Wrap err ''execute description template''), w)
         | Inr description \<Rightarrow>
            (case clientCreateConversation iface cli summary description w of
               (Inl err, w') \<Rightarrow> (Inl (Wrap err ''create conversation''), w')
             | (Inr conversationID, w') \<Rightarrow> (Inr conversationID, w'))))"

text \<open>The parameters of the processor that are not fields of its struct: the interface's
  methods, the team's \<open>MatchWithIntegrations\<close>, the constant \<open>nvdCVEURL\<close> (declared
  outside the files at hand) and the two printers.\<close>

record ('c, 'w, 't) collaborators =
  iface :: "('c, 'w) FreeScoutClient"
  MatchWithIntegrations :: "'t \<Rightarrow> Integrations \<Rightarrow> error + Integrations"
  nvdCVEURL :: string
  fmtFloat :: "float64 \<Rightarrow> string"
  fmtTime :: "time_Time \<Rightarrow> string"

text \<open>\<open>runVuln\<close>: \<open>None\<close> is the nil error.\<close>

definition runVuln ::
  "('c, 'w, 't) collaborators \<Rightarrow> ('c, 't) worker_FreeScout \<Rightarrow> 'c \<Rightarrow> freeScoutArgs \<Rightarrow> 'w
     \<Rightarrow> error option \<times> 'w" where
  "runVuln env f cli args w =
    (case Vulnerability args of
       None \<Rightarrow> (Some (Error ''invalid job args''), w)
     | Some vargs \<Rightarrow>
        (case (if AffectedSoftwareIDs vargs = []
               then HostsByCVE (Datastore f) (vulnArgs.CVE vargs)
               else HostVulnSummariesBySoftwareIDs (Datastore f) (AffectedSoftwareIDs vargs)) of
           Inl err \<Rightarrow> (Some (Wrap err ''fetching hosts''), w)
         | Inr hosts \<Rightarrow>
            (let tplArgs = \<lparr>NVDURL = nvdCVEURL env,
                            freeScoutVulnTplArgs.FleetURL = worker_FreeScout.FleetURL f,
                            freeScoutVulnTplArgs.CVE = vulnArgs.CVE vargs,
                            freeScoutVulnTplArgs.Hosts = hosts,
                            freeScoutVulnTplArgs.EPSSProbability = vulnArgs.EPSSProbability vargs,
                            freeScoutVulnTplArgs.CVSSScore = vulnArgs.CVSSScore vargs,
                            freeScoutVulnTplArgs.CISAKnownExploit = vulnArgs.CISAKnownExploit vargs,
                            freeScoutVulnTplArgs.CVEPublished = vulnArgs.CVEPublished vargs\<rparr> in
             case createTemplatedConversation (iface env) cli
                    (\<lambda>a. Inr (VulnSummary a)) (\<lambda>a. Inr (VulnDescription (fmtFloat env) (fmtTime env) a))
                    tplArgs w of
               (Inl err, w') \<Rightarrow> (Some err, w')
             | (Inr conversationID, w') \<Rightarrow> (None, w'))))"

text \<open>\<open>runFailingPolicy\<close>. It reads \<open>args.FailingPolicy\<close> without a check; \<open>Run\<close> calls
  it only when that pointer is not nil. The nil case is Go's panic.\<close>

definition runFailingPolicy ::
  "('c, 'w, 't) collaborators \<Rightarrow> ('c, 't) worker_FreeScout \<Rightarrow> 'c \<Rightarrow> freeScoutArgs \<Rightarrow> 'w
     \<Rightarrow> error option \<times> 'w" where
  "runFailingPolicy env f cli args w =
    (case FailingPolicy args of
       None \<Rightarrow> (Some (Panic ''nil pointer dereference''), w)
     | Some fp \<Rightarrow>
        (case createTemplatedConversation (iface env) cli
                (\<lambda>a. Inr (FailingPolicySummary a)) (\<lambda>a. Inr (FailingPolicyDescription a))
                (newFailingPoliciesTplArgs (worker_FreeScout.FleetURL f) fp) w of
           (Inl err, w') \<Rightarrow> (Some err, w')
         | (Inr conversationID, w') \<Rightarrow> (None, w')))"

text \<open>
  \<open>Run\<close>. \<open>decoded\<close> is the outcome of \<open>json.Unmarshal(argsJSON, &args)\<close>: an error,
  or the arguments, in which a key that the JSON object does not have is a nil pointer.
  The result is the error (\<open>None\<close> for nil), the processor and the world.
\<close>

definition Run ::
  "('c, 'w, 't) collaborators \<Rightarrow> ('c, 't) worker_FreeScout \<Rightarrow> error + freeScoutArgs \<Rightarrow> 'w
     \<Rightarrow> error option \<times> ('c, 't) worker_FreeScout \<times> 'w" where
  "Run env f decoded w =
    (case decoded of
       Inl err \<Rightarrow> (Some (Wrap err ''unmarshal args''), f, w)
     | Inr args \<Rightarrow>
        (case getClient (iface env) (MatchWithIntegrations env) f args of
           (Inl err, f') \<Rightarrow> (Some (Wrap err ''get FreeScout client''), f', w)
         | (Inr None, f') \<Rightarrow> (None, f', w)
         | (Inr (Some cli), f') \<Rightarrow>
            (let intgType = integrationType args in
             if intgType = intgTypeVuln then
               (case runVuln env f' cli args w of (err, w') \<Rightarrow> (err, f', w'))
             else if intgType = intgTypeFailingPolicy then
               (case runFailingPolicy env f' cli args w of (err, w') \<Rightarrow> (err, f', w'))
             else (Some (Error (''unknown integration type: '' @ intgType)), f', w))))"

subsection \<open>The processor wired to the API client\<close>

text \<open>
  The methods of the API client as the interface \<open>FreeScoutClient\<close>, and its
  constructor as a \<open>NewClientFunc\<close>. The place where the processor is created is
  outside the files at hand; \<open>NewFreeScoutClient\<close> is the only constructor of a
  \<open>FreeScoutClient\<close> in them.
\<close>

definition externalsvc_client :: "httpClient \<Rightarrow> (externalsvc_FreeScout, world) FreeScoutClient" where
  "externalsvc_client client =
     \<lparr>clientCreateConversation = CreateFreeScoutConversation client,
      clientConfigMatches = FreeScoutConfigMatches\<rparr>"

definition newFreeScoutClient ::
  "(string \<Rightarrow> error + parsedURL) \<Rightarrow> FreeScoutOptions \<Rightarrow> error + externalsvc_FreeScout option" where
  "newFreeScoutClient parse os =
     (case NewFreeScoutClient parse (Some os) of Inl err \<Rightarrow> Inl err | Inr cli \<Rightarrow> Inr (Some cli))"

section \<open>Concrete configurations\<close>

text \<open>A FreeScout integration for vulnerabilities whose URL ends in a slash, as an
  administrator may enter it, and one whose URL does not.\<close>

definition slashOptions :: FreeScoutOptions where
  "slashOptions =
     \<lparr>URL = ''https://fs.example.com/'', APIToken = ''secret'', FreeScoutOptions.MailboxID = 1,
      CustomerEmail = ''fleet@example.com'', FreeScoutOptions.AssignTo = 0\<rparr>"

definition plainOptions :: FreeScoutOptions where
  "plainOptions =
     \<lparr>URL = ''https://fs.example.com'', APIToken = ''secret'', FreeScoutOptions.MailboxID = 1,
      CustomerEmail = ''fleet@example.com'', FreeScoutOptions.AssignTo = 0\<rparr>"

definition integrationOf :: "FreeScoutOptions \<Rightarrow> FreeScoutIntegration" where
  "integrationOf os =
     \<lparr>IntgURL = URL os, IntgAPIToken = APIToken os, IntgMailboxID = FreeScoutOptions.MailboxID os,
      IntgCustomerEmail = CustomerEmail os, IntgAssignTo = FreeScoutOptions.AssignTo os,
      EnableSoftwareVulnerabilities = True, EnableFailingPolicies = False\<rparr>"

text \<open>A datastore with the given integration entries and no team, and hosts only for
  the software identifiers 1 and 2.\<close>

definition sampleDatastore ::
  "FreeScoutIntegration list \<Rightarrow> HostVulnerabilitySummary list \<Rightarrow> unit Datastore" where
  "sampleDatastore intgs hosts =
     \<lparr>AppConfig = Inr \<lparr>Integrations = \<lparr>Freescout = intgs\<rparr>\<rparr>,
      TeamLite = (\<lambda>_. Inl (Error ''team not found'')),
      HostsByCVE = (\<lambda>_. Inr []),
      HostVulnSummariesBySoftwareIDs = (\<lambda>ids. if ids = [1, 2] then Inr hosts else Inr [])\<rparr>"

text \<open>A processor wired to the API client, with a cache that was never used.\<close>

definition sampleProcessor ::
  "FreeScoutIntegration list \<Rightarrow> HostVulnerabilitySummary list
     \<Rightarrow> (externalsvc_FreeScout, unit) worker_FreeScout" where
  "sampleProcessor intgs hosts =
     \<lparr>worker_FreeScout.FleetURL = ''https://fleet.example.com'',
      Datastore = sampleDatastore intgs hosts,
      NewClientFunc = newFreeScoutClient url_Parse,
      clientsCache = None,
      newClientCalls = []\<rparr>"

text \<open>The job of scenario A: \<open>{"vulnerability":{"cve":"CVE-2024-0001",
  "affected_software_ids":[1,2]}}\<close>, and the job \<open>{}\<close> with neither key.\<close>

definition vulnJob :: freeScoutArgs where
  "vulnJob =
     \<lparr>Vulnerability = Some \<lparr>vulnArgs.CVE = ''CVE-2024-0001'', AffectedSoftwareIDs = [1, 2],
                              vulnArgs.EPSSProbability = None, vulnArgs.CVSSScore = None,
                              vulnArgs.CISAKnownExploit = None, vulnArgs.CVEPublished = None\<rparr>,
      FailingPolicy = None\<rparr>"

definition emptyJob :: freeScoutArgs where
  "emptyJob = \<lparr>Vulnerability = None, FailingPolicy = None\<rparr>"

text \<open>A server that answers every request with the given list of conversations and the
  status 200, and one that cannot be reached.\<close>

definition serverWith :: "freeScoutConversation list \<Rightarrow> httpClient" where
  "serverWith cs =
     (\<lambda>_ _. Inr \<lparr>StatusCode = 200, RespHeader = [(''Resource-Id'', ''77'')], RespBody = [],
                   RespJSON = Inr \<lparr>Conversations = cs\<rparr>\<rparr>)"

definition noServer :: httpClient where
  "noServer = (\<lambda>_ _. Inl (Error ''connection refused''))"

definition sampleEnv :: "httpClient \<Rightarrow> (externalsvc_FreeScout, world, unit) collaborators" where
  "sampleEnv client =
     \<lparr>iface = externalsvc_client client,
      MatchWithIntegrations = (\<lambda>_ intgs. Inr intgs),
      nvdCVEURL = ''https://nvd.nist.gov/vuln/detail/'',
      fmtFloat = (\<lambda>_. []),
      fmtTime = (\<lambda>_. [])\<rparr>"

text \<open>The API client built from \<open>plainOptions\<close>, and the client of a team.\<close>

definition plainClient :: externalsvc_FreeScout where
  "plainClient = \<lparr>opts = plainOptions\<rparr>"

definition teamClient :: externalsvc_FreeScout where
  "teamClient = \<lparr>opts = plainOptions\<lparr>FreeScoutOptions.MailboxID := 7\<rparr>\<rparr>"

text \<open>A processor whose cache holds two clients: the given one under the key of the
  global vulnerability integration, and \<open>teamClient\<close> under the key of the failing
  policies of team 7.\<close>

definition cachedProcessor ::
  "FreeScoutIntegration list \<Rightarrow> externalsvc_FreeScout \<Rightarrow> (externalsvc_FreeScout, unit) worker_FreeScout" where
  "cachedProcessor intgs cli =
     (sampleProcessor intgs [])
       \<lparr>clientsCache := Some [''failingPolicy:7'' \<mapsto> Some teamClient, ''vuln:'' \<mapsto> Some cli]\<rparr>"

text \<open>Sixty affected hosts, numbered from 1.\<close>

definition sixtyHosts :: "HostVulnerabilitySummary list" where
  "sixtyHosts =
     map (\<lambda>i. \<lparr>HostVulnerabilitySummary.ID = of_nat i,
                HostVulnerabilitySummary.DisplayName = ''host-'' @ FormatUint i,
                SoftwareInstalledPaths = []\<rparr>) [1..<61]"

text \<open>A server that finds the conversation 42 but fails to append a thread.\<close>

definition appendFailsServer :: httpClient where
  "appendFailsServer =
     (\<lambda>_ req. if Method req = ''GET''
        then Inr \<lparr>StatusCode = 200, RespHeader = [], RespBody = [],
                  RespJSON = Inr \<lparr>Conversations = [\<lparr>freeScoutConversation.ID = 42\<rparr>]\<rparr>\<rparr>
        else Inr \<lparr>StatusCode = 500, RespHeader = [], RespBody = '' internal error '',
                  RespJSON = Inl (Error ''invalid character'')\<rparr>)"

text \<open>The kinds of request, by their bodies.\<close>

definition isCreateConversation :: "request \<Rightarrow> bool" where
  "isCreateConversation r = (case Body r of ConversationBody _ \<Rightarrow> True | _ \<Rightarrow> False)"

definition isAppendThread :: "request \<Rightarrow> bool" where
  "isAppendThread r = (case Body r of ThreadBody _ \<Rightarrow> True | _ \<Rightarrow> False)"

text \<open>The arguments of the vulnerability templates in scenario A, for a list of hosts.\<close>

definition scenarioTplArgs :: "HostVulnerabilitySummary list \<Rightarrow> freeScoutVulnTplArgs" where
  "scenarioTplArgs hosts =
     \<lparr>NVDURL = ''https://nvd.nist.gov/vuln/detail/'',
      freeScoutVulnTplArgs.FleetURL = ''https://fleet.example.com'',
      freeScoutVulnTplArgs.CVE = ''CVE-2024-0001'',
      freeScoutVulnTplArgs.Hosts = hosts,
      freeScoutVulnTplArgs.EPSSProbability = None,
      freeScoutVulnTplArgs.CVSSScore = None,
      freeScoutVulnTplArgs.CISAKnownExploit = None,
      freeScoutVulnTplArgs.CVEPublished = None\<rparr>"



section \<open>Valid URLs\<close>

text \<open>The endpoint URL is valid when the parser accepts it and finds a scheme and a
  host in it.\<close>

definition validURL :: "(string \<Rightarrow> error + parsedURL) \<Rightarrow> string \<Rightarrow> bool" where
  "validURL parse u = (case parse u of Inl _ \<Rightarrow> False | Inr p \<Rightarrow> Scheme p \<noteq> [] \<and> Host p \<noteq> [])"

section \<open>Facts about the library models and the concrete configurations\<close>

lemma url_Parse_slash:
  "url_Parse ''https://fs.example.com/'' = Inr \<lparr>Scheme = ''https'', Host = ''fs.example.com''\<rparr>"
  by code_simp

lemma url_Parse_plain:
  "url_Parse ''https://fs.example.com'' = Inr \<lparr>Scheme = ''https'', Host = ''fs.example.com''\<rparr>"
  by code_simp

lemma url_Parse_bare: "url_Parse ''fs.example.com'' = Inr \<lparr>Scheme = [], Host = []\<rparr>"
  by code_simp

lemma TrimRight_slash: "TrimRight ''https://fs.example.com/'' ''/'' = ''https://fs.example.com''"
  by code_simp

lemma TrimRight_plain: "TrimRight ''https://fs.example.com'' ''/'' = ''https://fs.example.com''"
  by code_simp

lemma New_slash: "NewFreeScoutClient url_Parse (Some slashOptions) = Inr \<lparr>opts = plainOptions\<rparr>"
  by (simp add: NewFreeScoutClient_def slashOptions_def plainOptions_def url_Parse_slash TrimRight_slash)

lemma New_plain: "NewFreeScoutClient url_Parse (Some plainOptions) = Inr \<lparr>opts = plainOptions\<rparr>"
  by (simp add: NewFreeScoutClient_def plainOptions_def url_Parse_plain TrimRight_plain)

lemma plain_neq_slash: "plainOptions \<noteq> slashOptions"
  by (simp add: slashOptions_def plainOptions_def)

lemma ParseInt_77: "ParseInt ''77'' = Some 77"
  by code_simp

lemma ParseInt_empty: "ParseInt [] = None"
  by (simp add: ParseInt_def)

lemma TrimSpace_internal_error: "TrimSpace '' internal error '' = ''internal error''"
  by code_simp

lemma headerGet_Resource_ID: "headerGet [(''Resource-Id'', v)] ''Resource-ID'' = v"
proof -
  have "CanonicalMIMEHeaderKey ''Resource-ID'' = ''Resource-Id''"
    by code_simp
  then show ?thesis
    by (simp add: headerGet_def)
qed

lemma resolve_vulnJob_cached:
  "getClient_resolve M (cachedProcessor [integrationOf os] cli) vulnJob = Inr (''vuln:'', Some os)"
  by (simp add: getClient_resolve_def cachedProcessor_def sampleProcessor_def sampleDatastore_def
      vulnJob_def integrationType_def integrationOf_def optionsOf_def intgTypeVuln_def
      intgTypeFailingPolicy_def)

lemma resolve_vulnJob:
  "getClient_resolve M (sampleProcessor [integrationOf os] hs) vulnJob = Inr (''vuln:'', Some os)"
  by (simp add: getClient_resolve_def sampleProcessor_def sampleDatastore_def vulnJob_def
      integrationType_def integrationOf_def optionsOf_def intgTypeVuln_def intgTypeFailingPolicy_def)

section \<open>The client cache\<close>

text \<open>\<open>getClient\<close> is its critical section, run on the key and the options that the
  resolution of the configuration yields. The theorems below are stated on the critical
  section, for every key and every resolved options value.\<close>

lemma getClient_resolved:
  assumes "getClient_resolve M f args = Inr (key, optsPtr)"
  shows "getClient ifc M f args = getClient_locked ifc f key optsPtr"
  using assms by (simp add: getClient_def)

lemma getClient_datastore_error:
  assumes "getClient_resolve M f args = Inl err"
  shows "getClient ifc M f args = (Inl err, f)"
  using assms by (simp add: getClient_def)

text \<open>Three lemmas on the critical section of \<open>getClient\<close>, one for each of its paths with
  options at hand: a cached client that matches is returned and nothing else happens;
  otherwise the constructor is called once, and the cache changes only when it succeeds.\<close>

lemma getClient_locked_hit:
  assumes "cacheLookup (cacheEntries (clientsCache f)) key = Some c"
    and "clientConfigMatches ifc c os"
  shows "getClient_locked ifc f key (Some os) =
           (Inr (Some c), f\<lparr>clientsCache := Some (cacheEntries (clientsCache f))\<rparr>)"
  using assms by (simp add: getClient_locked_def Let_def)

lemma getClient_locked_miss:
  assumes "\<And>c. cacheLookup (cacheEntries (clientsCache f)) key = Some c \<Longrightarrow> \<not> clientConfigMatches ifc c os"
  shows "getClient_locked ifc f key (Some os) =
     (case NewClientFunc f os of
        Inl err \<Rightarrow> (Inl err, f\<lparr>clientsCache := Some (cacheEntries (clientsCache f)),
                                 newClientCalls := newClientCalls f @ [os]\<rparr>)
      | Inr cli' \<Rightarrow> (Inr cli', f\<lparr>clientsCache := Some ((cacheEntries (clientsCache f))(key \<mapsto> cli')),
                                 newClientCalls := newClientCalls f @ [os]\<rparr>))"
  using assms by (auto simp add: getClient_locked_def Let_def split: option.splits)

lemma NewFreeScoutClient_opts:
  assumes "NewFreeScoutClient parse (Some os) = Inr c"
  shows "opts c = os\<lparr>URL := TrimRight (URL os) ''/''\<rparr>"
  using assms by (auto simp add: NewFreeScoutClient_def split: if_splits sum.splits)

lemma cachedProcessor_lookup:
  "cacheLookup (cacheEntries (clientsCache (cachedProcessor intgs cli))) ''vuln:'' = Some cli"
  by (simp add: cachedProcessor_def cacheEntries_def cacheLookup_def)

lemma sampleProcessor_lookup:
  "cacheLookup (cacheEntries (clientsCache (sampleProcessor intgs hs))) key = None"
  by (simp add: sampleProcessor_def cacheEntries_def cacheLookup_def)

text \<open>With a constructor whose client matches the options it was built from, two calls
  in a row with the same options call the constructor once at most: the second call
  calls it never.\<close>

lemma getClient_locked_twice_constructs_once:
  assumes "NewClientFunc f os = Inr (Some c)"
    and "clientConfigMatches ifc c os"
  shows "newClientCalls (snd (getClient_locked ifc (snd (getClient_locked ifc f key (Some os))) key (Some os)))
           = newClientCalls (snd (getClient_locked ifc f key (Some os)))"
    and "length (newClientCalls (snd (getClient_locked ifc f key (Some os)))) \<le> length (newClientCalls f) + 1"
  using assms
  by (auto simp add: getClient_locked_def Let_def cacheLookup_def cacheEntries_def split: option.splits)

text \<open>
  Claim C1. A cached client whose stored options equal the resolved options is returned
  without a call of the constructor (lemma \<open>getClient_locked_hit\<close>), so two calls of
  \<open>getClient\<close> in a row with the same options should construct one client at most
  (lemma \<open>getClient_locked_twice_constructs_once\<close>, for a constructor whose client
  matches its options). With the API client they construct two when the URL of the
  integration ends in a slash: the constructor stores the URL without the slash, the
  stored options differ from the resolved ones, and the second call builds a client
  again.
\<close>

theorem getClient_twice_same_options_constructs_twice:
  "newClientCalls
     (snd (getClient (externalsvc_client noServer) (\<lambda>_ intgs. Inr intgs)
        (snd (getClient (externalsvc_client noServer) (\<lambda>_ intgs. Inr intgs)
                (sampleProcessor [integrationOf slashOptions] []) vulnJob))
        vulnJob))
   = [slashOptions, slashOptions]"
proof -
  define I where "I = externalsvc_client noServer"
  define M where "M = (\<lambda>(_::unit) (intgs::Integrations). (Inr intgs :: error + Integrations))"
  define P where "P = sampleProcessor [integrationOf slashOptions] []"
  define cli where "cli = \<lparr>opts = plainOptions\<rparr>"
  define P1 where "P1 = P\<lparr>clientsCache := Some ((cacheEntries (clientsCache P))(''vuln:'' \<mapsto> Some cli)),
                          newClientCalls := newClientCalls P @ [slashOptions]\<rparr>"
  define P2 where "P2 = P1\<lparr>clientsCache := Some ((cacheEntries (clientsCache P1))(''vuln:'' \<mapsto> Some cli)),
                           newClientCalls := newClientCalls P1 @ [slashOptions]\<rparr>"
  have new: "NewClientFunc P slashOptions = Inr (Some cli)"
    by (simp add: P_def cli_def sampleProcessor_def newFreeScoutClient_def New_slash)
  have "getClient_locked I P ''vuln:'' (Some slashOptions) =
          (case NewClientFunc P slashOptions of
             Inl err \<Rightarrow> (Inl err, P\<lparr>clientsCache := Some (cacheEntries (clientsCache P)),
                                      newClientCalls := newClientCalls P @ [slashOptions]\<rparr>)
           | Inr cli' \<Rightarrow> (Inr cli', P\<lparr>clientsCache := Some ((cacheEntries (clientsCache P))(''vuln:'' \<mapsto> cli')),
                                      newClientCalls := newClientCalls P @ [slashOptions]\<rparr>))"
    by (rule getClient_locked_miss) (simp add: P_def sampleProcessor_lookup)
  then have locked: "getClient_locked I P ''vuln:'' (Some slashOptions) = (Inr (Some cli), P1)"
    by (simp add: new P1_def)
  have "getClient_resolve M P vulnJob = Inr (''vuln:'', Some slashOptions)"
    unfolding P_def by (rule resolve_vulnJob)
  then have first: "getClient I M P vulnJob = (Inr (Some cli), P1)"
    by (simp add: getClient_def locked)
  have resolve1: "getClient_resolve M P1 vulnJob = Inr (''vuln:'', Some slashOptions)"
    by (simp add: P1_def P_def getClient_resolve_def sampleProcessor_def sampleDatastore_def vulnJob_def
        integrationType_def integrationOf_def optionsOf_def intgTypeVuln_def intgTypeFailingPolicy_def
        slashOptions_def)
  have lookup1: "cacheLookup (cacheEntries (clientsCache P1)) ''vuln:'' = Some cli"
    by (simp add: P1_def cacheEntries_def cacheLookup_def)
  have nomatch: "\<not> clientConfigMatches I cli slashOptions"
    using plain_neq_slash by (simp add: I_def cli_def externalsvc_client_def FreeScoutConfigMatches_def)
  have new1: "NewClientFunc P1 slashOptions = Inr (Some cli)"
    by (simp add: P1_def P_def cli_def sampleProcessor_def newFreeScoutClient_def New_slash)
  have "getClient_locked I P1 ''vuln:'' (Some slashOptions) =
          (case NewClientFunc P1 slashOptions of
             Inl err \<Rightarrow> (Inl err, P1\<lparr>clientsCache := Some (cacheEntries (clientsCache P1)),
                                       newClientCalls := newClientCalls P1 @ [slashOptions]\<rparr>)
           | Inr cli' \<Rightarrow> (Inr cli', P1\<lparr>clientsCache := Some ((cacheEntries (clientsCache P1))(''vuln:'' \<mapsto> cli')),
                                       newClientCalls := newClientCalls P1 @ [slashOptions]\<rparr>))"
    by (rule getClient_locked_miss) (use lookup1 nomatch in simp)
  then have locked1: "getClient_locked I P1 ''vuln:'' (Some slashOptions) = (Inr (Some cli), P2)"
    by (simp add: new1 P2_def)
  have second: "getClient I M P1 vulnJob = (Inr (Some cli), P2)"
    by (simp add: getClient_def resolve1 locked1)
  have "newClientCalls P2 = [slashOptions, slashOptions]"
    by (simp add: P2_def P1_def P_def sampleProcessor_def)
  then show ?thesis
    using first second by (simp add: I_def M_def P_def)
qed


text \<open>
  Claim C3. When the resolution of the configuration yields no options (no integration
  is enabled for the job), \<open>getClient\<close> returns no client and no error, the entry of the
  job's key is removed from the cache, every other entry stays, and the constructor is
  not called, whatever the cache held before. The same holds of the critical section
  for every key.
\<close>

theorem getClient_no_options_evicts:
  assumes "getClient_resolve M f args = Inr (key, None)"
  shows "fst (getClient ifc M f args) = Inr None \<and>
         cacheEntries (clientsCache (snd (getClient ifc M f args)))
           = (cacheEntries (clientsCache f))(key := None) \<and>
         newClientCalls (snd (getClient ifc M f args)) = newClientCalls f \<and>
         fst (getClient_locked ifc f key' None) = Inr None \<and>
         cacheEntries (clientsCache (snd (getClient_locked ifc f key' None)))
           = (cacheEntries (clientsCache f))(key' := None) \<and>
         newClientCalls (snd (getClient_locked ifc f key' None)) = newClientCalls f"
  using assms by (simp add: getClient_def getClient_locked_def cacheEntries_def)

theorem getClient_no_options_evicts_witness:
  "fst (getClient (externalsvc_client noServer) (\<lambda>_ intgs. Inr intgs)
          (cachedProcessor [(integrationOf plainOptions)\<lparr>EnableSoftwareVulnerabilities := False\<rparr>] plainClient)
          vulnJob) = Inr None \<and>
   cacheEntries (clientsCache (snd (getClient (externalsvc_client noServer) (\<lambda>_ intgs. Inr intgs)
          (cachedProcessor [(integrationOf plainOptions)\<lparr>EnableSoftwareVulnerabilities := False\<rparr>] plainClient)
          vulnJob)))
     = [''failingPolicy:7'' \<mapsto> Some teamClient] \<and>
   newClientCalls (snd (getClient (externalsvc_client noServer) (\<lambda>_ intgs. Inr intgs)
          (cachedProcessor [(integrationOf plainOptions)\<lparr>EnableSoftwareVulnerabilities := False\<rparr>] plainClient)
          vulnJob)) = []"
proof -
  let ?f = "cachedProcessor [(integrationOf plainOptions)\<lparr>EnableSoftwareVulnerabilities := False\<rparr>] plainClient"
  have resolve: "getClient_resolve (\<lambda>_ intgs. Inr intgs) ?f vulnJob = Inr (''vuln:'', None)"
    by (simp add: getClient_resolve_def cachedProcessor_def sampleProcessor_def sampleDatastore_def
        vulnJob_def integrationType_def integrationOf_def intgTypeVuln_def intgTypeFailingPolicy_def)
  have entries: "(cacheEntries (clientsCache ?f))(''vuln:'' := None) = [''failingPolicy:7'' \<mapsto> Some teamClient]"
    by (auto simp add: cachedProcessor_def cacheEntries_def)
  have calls: "newClientCalls ?f = []"
    by (simp add: cachedProcessor_def sampleProcessor_def)
  show ?thesis
    using getClient_no_options_evicts [OF resolve, of "externalsvc_client noServer"] entries calls
    by simp
qed

text \<open>
  Claim C10. When \<open>getClient\<close> calls the constructor (the configuration yields options
  and no cached client of the key matches them) and the constructor returns an error,
  \<open>getClient\<close> returns that error and the entries of the cache are those from before
  the call: a client cached under the key, built from options that are stale by now,
  stays there.
\<close>

theorem getClient_constructor_error_keeps_cache:
  assumes "getClient_resolve M f args = Inr (key, Some os)"
    and "NewClientFunc f os = Inl err"
    and "\<forall>c. cacheLookup (cacheEntries (clientsCache f)) key = Some c \<longrightarrow> \<not> clientConfigMatches ifc c os"
  shows "fst (getClient ifc M f args) = Inl err \<and>
         cacheEntries (clientsCache (snd (getClient ifc M f args))) = cacheEntries (clientsCache f)"
proof -
  have "getClient_locked ifc f key (Some os) =
          (Inl err, f\<lparr>clientsCache := Some (cacheEntries (clientsCache f)),
                      newClientCalls := newClientCalls f @ [os]\<rparr>)"
    using assms(2,3) by (subst getClient_locked_miss) simp_all
  then show ?thesis
    using assms(1) by (simp add: getClient_def cacheEntries_def)
qed

theorem getClient_constructor_error_keeps_cache_witness:
  "fst (getClient (externalsvc_client noServer) (\<lambda>_ intgs. Inr intgs)
          (cachedProcessor [integrationOf (plainOptions\<lparr>URL := ''fs.example.com''\<rparr>)] plainClient)
          vulnJob)
     = Inl (Error ''invalid FreeScout URL'') \<and>
   cacheEntries (clientsCache (snd (getClient (externalsvc_client noServer) (\<lambda>_ intgs. Inr intgs)
          (cachedProcessor [integrationOf (plainOptions\<lparr>URL := ''fs.example.com''\<rparr>)] plainClient)
          vulnJob)))
     = [''failingPolicy:7'' \<mapsto> Some teamClient, ''vuln:'' \<mapsto> Some plainClient]"
proof -
  let ?os = "plainOptions\<lparr>URL := ''fs.example.com''\<rparr>"
  let ?f = "cachedProcessor [integrationOf ?os] plainClient"
  have resolve: "getClient_resolve (\<lambda>_ intgs. Inr intgs) ?f vulnJob = Inr (''vuln:'', Some ?os)"
    by (rule resolve_vulnJob_cached)
  have fails: "NewClientFunc ?f ?os = Inl (Error ''invalid FreeScout URL'')"
    by (simp add: cachedProcessor_def sampleProcessor_def newFreeScoutClient_def NewFreeScoutClient_def
        url_Parse_bare)
  have stale: "\<forall>c. cacheLookup (cacheEntries (clientsCache ?f)) ''vuln:'' = Some c
                 \<longrightarrow> \<not> clientConfigMatches (externalsvc_client noServer) c ?os"
    by (simp add: cachedProcessor_lookup externalsvc_client_def FreeScoutConfigMatches_def
        plainClient_def plainOptions_def)
  have entries: "cacheEntries (clientsCache ?f)
                   = [''failingPolicy:7'' \<mapsto> Some teamClient, ''vuln:'' \<mapsto> Some plainClient]"
    by (simp add: cachedProcessor_def cacheEntries_def)
  show ?thesis
    using getClient_constructor_error_keeps_cache [OF resolve fails stale] entries by simp
qed

text \<open>An error of \<open>getClient\<close>, such as that of the constructor, is returned by \<open>Run\<close>
  with its label, and no request is sent.\<close>

lemma Run_returns_getClient_error:
  assumes "fst (getClient (iface env) (MatchWithIntegrations env) f args) = Inl err"
  shows "fst (Run env f (Inr args) w) = Some (Wrap err ''get FreeScout client'') \<and>
         snd (snd (Run env f (Inr args) w)) = w"
  using assms by (cases "getClient (iface env) (MatchWithIntegrations env) f args") (simp add: Run_def)

lemma Run_malformed_payload:
  "Run env f (Inl err) w = (Some (Wrap err ''unmarshal args''), f, w)"
  by (simp add: Run_def)

text \<open>
  Claim C7, as stated, fails when "required option" is read as the fields that an
  integration needs (API token, mailbox, customer email): the constructor does not look
  at them, and builds a client from a valid URL alone.
\<close>

theorem NewFreeScoutClient_required_counterexample:
  "NewFreeScoutClient url_Parse
     (Some \<lparr>URL = ''https://fs.example.com'', APIToken = [], FreeScoutOptions.MailboxID = 0,
            CustomerEmail = [], FreeScoutOptions.AssignTo = 0\<rparr>)
     = Inr \<lparr>opts = \<lparr>URL = ''https://fs.example.com'', APIToken = [], FreeScoutOptions.MailboxID = 0,
                     CustomerEmail = [], FreeScoutOptions.AssignTo = 0\<rparr>\<rparr>"
  by (simp add: NewFreeScoutClient_def url_Parse_plain TrimRight_plain)

text \<open>
  Claim C7, amended. \<open>NewFreeScoutClient\<close> returns an error exactly when the options
  are missing, the URL is missing (empty), or the URL is not valid: the parser rejects
  it, or finds no scheme or no host in it. With the URL present and valid it returns the
  client, whose stored options are the given ones with the trailing slashes of the URL
  removed. Whether it returns an error does not depend on the API token, the mailbox,
  the customer email or the assignee. The error is not swallowed: when \<open>getClient\<close>
  comes to call the constructor, \<open>Run\<close> returns the constructor's error, labelled, and
  sends no request.
\<close>

theorem NewFreeScoutClient_error_iff:
  "(\<exists>err. NewFreeScoutClient parse optsPtr = Inl err)
     = (optsPtr = None \<or> (\<exists>os. optsPtr = Some os \<and> (URL os = [] \<or> \<not> validURL parse (URL os)))) \<and>
   (NewFreeScoutClient parse (Some os') = Inr \<lparr>opts = os'\<lparr>URL := TrimRight (URL os') ''/''\<rparr>\<rparr>)
     = (URL os' \<noteq> [] \<and> validURL parse (URL os')) \<and>
   (\<exists>err. NewFreeScoutClient parse
            (Some (os'\<lparr>APIToken := t, FreeScoutOptions.MailboxID := m, CustomerEmail := e,
                        FreeScoutOptions.AssignTo := a\<rparr>)) = Inl err)
     = (\<exists>err. NewFreeScoutClient parse (Some os') = Inl err) \<and>
   (\<forall>f key args err w.
      NewClientFunc f = newFreeScoutClient parse \<and>
      getClient_resolve (MatchWithIntegrations env) f args = Inr (key, Some os') \<and>
      (\<forall>c. cacheLookup (cacheEntries (clientsCache f)) key = Some c
             \<longrightarrow> \<not> clientConfigMatches (iface env) c os') \<and>
      NewFreeScoutClient parse (Some os') = Inl err
      \<longrightarrow> fst (Run env f (Inr args) w) = Some (Wrap err ''get FreeScout client'') \<and>
          snd (snd (Run env f (Inr args) w)) = w)"
proof (intro conjI allI impI)
  show "(\<exists>err. NewFreeScoutClient parse optsPtr = Inl err)
     = (optsPtr = None \<or> (\<exists>os. optsPtr = Some os \<and> (URL os = [] \<or> \<not> validURL parse (URL os))))"
    by (cases optsPtr) (auto simp add: NewFreeScoutClient_def validURL_def split: sum.splits)
  show "(NewFreeScoutClient parse (Some os') = Inr \<lparr>opts = os'\<lparr>URL := TrimRight (URL os') ''/''\<rparr>\<rparr>)
     = (URL os' \<noteq> [] \<and> validURL parse (URL os'))"
    by (auto simp add: NewFreeScoutClient_def validURL_def split: sum.splits)
  show "(\<exists>err. NewFreeScoutClient parse
            (Some (os'\<lparr>APIToken := t, FreeScoutOptions.MailboxID := m, CustomerEmail := e,
                        FreeScoutOptions.AssignTo := a\<rparr>)) = Inl err)
     = (\<exists>err. NewFreeScoutClient parse (Some os') = Inl err)"
    by (auto simp add: NewFreeScoutClient_def split: sum.splits)
next
  fix f key args err w
  assume h: "NewClientFunc f = newFreeScoutClient parse \<and>
      getClient_resolve (MatchWithIntegrations env) f args = Inr (key, Some os') \<and>
      (\<forall>c. cacheLookup (cacheEntries (clientsCache f)) key = Some c
             \<longrightarrow> \<not> clientConfigMatches (iface env) c os') \<and>
      NewFreeScoutClient parse (Some os') = Inl err"
  then have fails: "NewClientFunc f os' = Inl err"
    by (simp add: newFreeScoutClient_def)
  have "getClient_locked (iface env) f key (Some os') =
          (Inl err, f\<lparr>clientsCache := Some (cacheEntries (clientsCache f)),
                      newClientCalls := newClientCalls f @ [os']\<rparr>)"
    using h fails by (subst getClient_locked_miss) simp_all
  then have "fst (getClient (iface env) (MatchWithIntegrations env) f args) = Inl err"
    using h by (simp add: getClient_def)
  then have r: "fst (Run env f (Inr args) w) = Some (Wrap err ''get FreeScout client'') \<and>
                snd (snd (Run env f (Inr args) w)) = w"
    by (rule Run_returns_getClient_error)
  from r show "fst (Run env f (Inr args) w) = Some (Wrap err ''get FreeScout client'')" by simp
  from r show "snd (snd (Run env f (Inr args) w)) = w" by simp
qed

theorem NewFreeScoutClient_error_iff_witness:
  "fst (Run (sampleEnv noServer)
          (sampleProcessor [integrationOf (plainOptions\<lparr>URL := ''fs.example.com''\<rparr>)] [])
          (Inr vulnJob) [])
     = Some (Wrap (Error ''invalid FreeScout URL'') ''get FreeScout client'') \<and>
   snd (snd (Run (sampleEnv noServer)
          (sampleProcessor [integrationOf (plainOptions\<lparr>URL := ''fs.example.com''\<rparr>)] [])
          (Inr vulnJob) [])) = []"
proof -
  let ?os = "plainOptions\<lparr>URL := ''fs.example.com''\<rparr>"
  let ?f = "sampleProcessor [integrationOf ?os] []"
  have wired: "NewClientFunc ?f = newFreeScoutClient url_Parse"
    by (simp add: sampleProcessor_def)
  have resolve: "getClient_resolve (MatchWithIntegrations (sampleEnv noServer)) ?f vulnJob
                   = Inr (''vuln:'', Some ?os)"
    by (rule resolve_vulnJob)
  have none: "\<forall>c. cacheLookup (cacheEntries (clientsCache ?f)) ''vuln:'' = Some c
                \<longrightarrow> \<not> clientConfigMatches (iface (sampleEnv noServer)) c ?os"
    by (simp add: sampleProcessor_lookup)
  have fails: "NewFreeScoutClient url_Parse (Some ?os) = Inl (Error ''invalid FreeScout URL'')"
    by (simp add: NewFreeScoutClient_def url_Parse_bare)
  from NewFreeScoutClient_error_iff
         [where parse = url_Parse and os' = ?os and env = "sampleEnv noServer"]
  have "\<forall>f key args err w.
      NewClientFunc f = newFreeScoutClient url_Parse \<and>
      getClient_resolve (MatchWithIntegrations (sampleEnv noServer)) f args = Inr (key, Some ?os) \<and>
      (\<forall>c. cacheLookup (cacheEntries (clientsCache f)) key = Some c
             \<longrightarrow> \<not> clientConfigMatches (iface (sampleEnv noServer)) c ?os) \<and>
      NewFreeScoutClient url_Parse (Some ?os) = Inl err
      \<longrightarrow> fst (Run (sampleEnv noServer) f (Inr args) w) = Some (Wrap err ''get FreeScout client'') \<and>
          snd (snd (Run (sampleEnv noServer) f (Inr args) w)) = w"
    by blast
  then show ?thesis
    using wired resolve none fails by blast
qed

text \<open>The constructor on four options values: a valid URL, a missing URL, a URL without
  scheme and host, and a valid URL with every other field empty.\<close>

lemma NewFreeScoutClient_examples:
  "NewFreeScoutClient url_Parse (Some plainOptions) = Inr \<lparr>opts = plainOptions\<rparr>"
  "NewFreeScoutClient url_Parse (Some (plainOptions\<lparr>URL := []\<rparr>)) = Inl (Error ''missing FreeScout URL'')"
  "NewFreeScoutClient url_Parse (Some (plainOptions\<lparr>URL := ''fs.example.com''\<rparr>))
     = Inl (Error ''invalid FreeScout URL'')"
  "NewFreeScoutClient url_Parse
     (Some \<lparr>URL = ''https://fs.example.com'', APIToken = [], FreeScoutOptions.MailboxID = 0,
            CustomerEmail = [], FreeScoutOptions.AssignTo = 0\<rparr>)
     = Inr \<lparr>opts = \<lparr>URL = ''https://fs.example.com'', APIToken = [], FreeScoutOptions.MailboxID = 0,
                     CustomerEmail = [], FreeScoutOptions.AssignTo = 0\<rparr>\<rparr>"
  by (simp_all add: New_plain NewFreeScoutClient_def plainOptions_def url_Parse_bare url_Parse_plain
      TrimRight_plain)

text \<open>
  Claim C5. \<open>FreeScoutConfigMatches\<close> is the equality of the stored options and the given
  ones, so a client should match the options it was built from. The client built from
  options whose URL ends in a slash does not: the constructor stores the URL without
  the slash.
\<close>

theorem built_client_mismatches_its_options:
  "NewFreeScoutClient url_Parse (Some slashOptions) = Inr \<lparr>opts = plainOptions\<rparr> \<and>
   FreeScoutConfigMatches \<lparr>opts = plainOptions\<rparr> slashOptions = False \<and>
   FreeScoutConfigMatches \<lparr>opts = plainOptions\<rparr> plainOptions = True"
  using New_slash plain_neq_slash by (simp add: FreeScoutConfigMatches_def)

text \<open>What holds of \<open>FreeScoutConfigMatches\<close>: the built client matches exactly one
  options value, the given one with the trailing slashes of its URL removed.\<close>

lemma built_client_matches_iff:
  assumes "NewFreeScoutClient parse (Some os) = Inr c"
  shows "FreeScoutConfigMatches c os' = (os' = os\<lparr>URL := TrimRight (URL os) ''/''\<rparr>)"
  using NewFreeScoutClient_opts [OF assms] by (auto simp add: FreeScoutConfigMatches_def)

text \<open>A client built from options whose URL has no trailing slash matches those options
  and no others.\<close>

lemma built_client_matches_own_options:
  assumes "NewFreeScoutClient parse (Some os) = Inr c"
    and "TrimRight (URL os) ''/'' = URL os"
  shows "FreeScoutConfigMatches c os' = (os' = os)"
  using built_client_matches_iff [OF assms(1)] assms(2) by simp

text \<open>
  Claim C2, as stated, fails when the constructor rejects the new options: nothing is
  stored, and the client built from the old options stays in the cache.
\<close>

theorem getClient_changed_options_counterexample:
  "fst (getClient (externalsvc_client noServer) (\<lambda>_ intgs. Inr intgs)
          (cachedProcessor [integrationOf (plainOptions\<lparr>URL := []\<rparr>)] plainClient) vulnJob)
     = Inl (Error ''missing FreeScout URL'') \<and>
   cacheLookup (cacheEntries (clientsCache (snd (getClient (externalsvc_client noServer)
          (\<lambda>_ intgs. Inr intgs)
          (cachedProcessor [integrationOf (plainOptions\<lparr>URL := []\<rparr>)] plainClient) vulnJob))))
       ''vuln:''
     = Some plainClient \<and>
   NewFreeScoutClient url_Parse (Some plainOptions) = Inr plainClient"
proof -
  let ?os = "plainOptions\<lparr>URL := []\<rparr>"
  let ?f = "cachedProcessor [integrationOf ?os] plainClient"
  have resolve: "getClient_resolve (\<lambda>_ intgs. Inr intgs) ?f vulnJob = Inr (''vuln:'', Some ?os)"
    by (rule resolve_vulnJob_cached)
  have stale: "\<And>c. cacheLookup (cacheEntries (clientsCache ?f)) ''vuln:'' = Some c
                 \<Longrightarrow> \<not> clientConfigMatches (externalsvc_client noServer) c ?os"
    by (simp add: cachedProcessor_lookup externalsvc_client_def FreeScoutConfigMatches_def
        plainClient_def plainOptions_def)
  have fails: "NewClientFunc ?f ?os = Inl (Error ''missing FreeScout URL'')"
    by (simp add: cachedProcessor_def sampleProcessor_def newFreeScoutClient_def NewFreeScoutClient_def)
  have "getClient_locked (externalsvc_client noServer) ?f ''vuln:'' (Some ?os)
          = (Inl (Error ''missing FreeScout URL''),
             ?f\<lparr>clientsCache := Some (cacheEntries (clientsCache ?f)),
                 newClientCalls := newClientCalls ?f @ [?os]\<rparr>)"
    using stale by (subst getClient_locked_miss) (simp_all add: fails)
  then have result: "getClient (externalsvc_client noServer) (\<lambda>_ intgs. Inr intgs) ?f vulnJob
          = (Inl (Error ''missing FreeScout URL''),
             ?f\<lparr>clientsCache := Some (cacheEntries (clientsCache ?f)),
                 newClientCalls := newClientCalls ?f @ [?os]\<rparr>)"
    by (simp add: getClient_def resolve)
  have lookup: "cacheLookup (cacheEntries (clientsCache
                  (?f\<lparr>clientsCache := Some (cacheEntries (clientsCache ?f)),
                      newClientCalls := newClientCalls ?f @ [?os]\<rparr>))) ''vuln:'' = Some plainClient"
    using cachedProcessor_lookup [of "[integrationOf ?os]" plainClient]
    by (simp add: cacheEntries_def)
  have built: "NewFreeScoutClient url_Parse (Some plainOptions) = Inr plainClient"
    by (simp add: New_plain plainClient_def)
  show ?thesis
    unfolding result using lookup built by simp
qed

text \<open>
  Claim C2, amended. The cache holds, under the job's key, the client built from the
  old options; the new options differ from the old ones, and also from the old ones
  with the trailing slashes of the URL removed (the options that the cached client
  stores); the constructor accepts the new options. Then \<open>getClient\<close> calls the
  constructor once, with the new options, stores the new client under the key in place
  of the old one, and returns it. The stored options of the new client are the new
  options with the trailing slashes of the URL removed.
\<close>

theorem getClient_changed_options_rebuilds:
  assumes "getClient_resolve M f args = Inr (key, Some new)"
    and "NewFreeScoutClient parse (Some old) = Inr c"
    and "cacheLookup (cacheEntries (clientsCache f)) key = Some c"
    and "new \<noteq> old"
    and "new \<noteq> old\<lparr>URL := TrimRight (URL old) ''/''\<rparr>"
    and "NewClientFunc f = newFreeScoutClient parse"
    and "NewFreeScoutClient parse (Some new) = Inr c'"
  shows "fst (getClient (externalsvc_client client) M f args) = Inr (Some c') \<and>
         cacheEntries (clientsCache (snd (getClient (externalsvc_client client) M f args)))
           = (cacheEntries (clientsCache f))(key \<mapsto> Some c') \<and>
         newClientCalls (snd (getClient (externalsvc_client client) M f args))
           = newClientCalls f @ [new] \<and>
         opts c' = new\<lparr>URL := TrimRight (URL new) ''/''\<rparr>"
proof -
  have "opts c = old\<lparr>URL := TrimRight (URL old) ''/''\<rparr>"
    by (rule NewFreeScoutClient_opts [OF assms(2)])
  then have stale: "\<not> clientConfigMatches (externalsvc_client client) c new"
    using assms(5) by (simp add: externalsvc_client_def FreeScoutConfigMatches_def)
  have built: "NewClientFunc f new = Inr (Some c')"
    using assms(6,7) by (simp add: newFreeScoutClient_def)
  have "getClient_locked (externalsvc_client client) f key (Some new) =
          (Inr (Some c'), f\<lparr>clientsCache := Some ((cacheEntries (clientsCache f))(key \<mapsto> Some c')),
                             newClientCalls := newClientCalls f @ [new]\<rparr>)"
    using assms(3) stale by (subst getClient_locked_miss) (simp_all add: built)
  then show ?thesis
    using NewFreeScoutClient_opts [OF assms(7)] assms(1) by (simp add: getClient_def cacheEntries_def)
qed

theorem getClient_changed_options_rebuilds_witness:
  "fst (getClient (externalsvc_client noServer) (\<lambda>_ intgs. Inr intgs)
          (cachedProcessor [integrationOf (slashOptions\<lparr>APIToken := ''rotated''\<rparr>)] plainClient) vulnJob)
     = Inr (Some \<lparr>opts = plainOptions\<lparr>APIToken := ''rotated''\<rparr>\<rparr>) \<and>
   cacheEntries (clientsCache (snd (getClient (externalsvc_client noServer) (\<lambda>_ intgs. Inr intgs)
          (cachedProcessor [integrationOf (slashOptions\<lparr>APIToken := ''rotated''\<rparr>)] plainClient) vulnJob)))
     = [''failingPolicy:7'' \<mapsto> Some teamClient,
        ''vuln:'' \<mapsto> Some \<lparr>opts = plainOptions\<lparr>APIToken := ''rotated''\<rparr>\<rparr>] \<and>
   newClientCalls (snd (getClient (externalsvc_client noServer) (\<lambda>_ intgs. Inr intgs)
          (cachedProcessor [integrationOf (slashOptions\<lparr>APIToken := ''rotated''\<rparr>)] plainClient) vulnJob))
     = [slashOptions\<lparr>APIToken := ''rotated''\<rparr>] \<and>
   NewFreeScoutClient url_Parse (Some slashOptions) = Inr plainClient"
proof -
  let ?new = "slashOptions\<lparr>APIToken := ''rotated''\<rparr>"
  let ?f = "cachedProcessor [integrationOf ?new] plainClient"
  let ?c' = "\<lparr>opts = plainOptions\<lparr>APIToken := ''rotated''\<rparr>\<rparr>"
  have resolve: "getClient_resolve (\<lambda>_ intgs. Inr intgs) ?f vulnJob = Inr (''vuln:'', Some ?new)"
    by (rule resolve_vulnJob_cached)
  have old: "NewFreeScoutClient url_Parse (Some slashOptions) = Inr plainClient"
    by (simp add: New_slash plainClient_def)
  have h4: "?new \<noteq> slashOptions"
    by (simp add: slashOptions_def)
  have h5: "?new \<noteq> slashOptions\<lparr>URL := TrimRight (URL slashOptions) ''/''\<rparr>"
    by (simp add: slashOptions_def)
  have h6: "NewClientFunc ?f = newFreeScoutClient url_Parse"
    by (simp add: cachedProcessor_def sampleProcessor_def)
  have h7: "NewFreeScoutClient url_Parse (Some ?new) = Inr ?c'"
    by (simp add: NewFreeScoutClient_def slashOptions_def plainOptions_def url_Parse_slash TrimRight_slash)
  have entries: "(cacheEntries (clientsCache ?f))(''vuln:'' \<mapsto> Some ?c')
                   = [''failingPolicy:7'' \<mapsto> Some teamClient, ''vuln:'' \<mapsto> Some ?c']"
    by (simp add: cachedProcessor_def cacheEntries_def)
  have calls: "newClientCalls ?f = []"
    by (simp add: cachedProcessor_def sampleProcessor_def)
  show ?thesis
    using getClient_changed_options_rebuilds
            [OF resolve old cachedProcessor_lookup h4 h5 h6 h7, of noServer]
      entries calls old
    by simp
qed

section \<open>Creating a conversation or appending to one\<close>

lemma request_kinds:
  "\<not> isCreateConversation (searchRequest f subject)"
  "\<not> isCreateConversation (threadRequest f n message)"
  "isCreateConversation (createConversationRequest f subject message)"
  "isAppendThread (threadRequest f n message)"
  "\<not> isAppendThread (searchRequest f subject)"
  "\<not> isAppendThread (createConversationRequest f subject message)"
  by (simp_all add: isCreateConversation_def isAppendThread_def searchRequest_def threadRequest_def
      createConversationRequest_def)

text \<open>The search, when the server answers it with a list of conversations.\<close>

lemma findExistingConversationID_answered:
  assumes "client w (searchRequest f subject) = Inr resp"
    and "StatusCode resp div 100 = 2"
    and "RespJSON resp = Inr payload"
  shows "findExistingConversationID client f subject w =
           (Inr (case Conversations payload of [] \<Rightarrow> 0 | c # _ \<Rightarrow> freeScoutConversation.ID c),
            w @ [searchRequest f subject])"
  using assms by (simp add: findExistingConversationID_def httpDo_def split: list.splits)

lemma CreateFreeScoutConversation_appends:
  assumes "findExistingConversationID client f subject w = (Inr n, w1)"
    and "0 <s n"
  shows "CreateFreeScoutConversation client f subject message w =
           (case client w1 (threadRequest f n message) of
              Inl err \<Rightarrow> Inl err
            | Inr r \<Rightarrow> if StatusCode r div 100 \<noteq> 2
                        then Inl (StatusError (StatusCode r) (TrimSpace (RespBody r)))
                        else Inr n,
            w1 @ [threadRequest f n message])"
  using assms
  by (simp add: CreateFreeScoutConversation_def createFreeScoutThread_def httpDo_def split: sum.splits)

lemma CreateFreeScoutConversation_creates:
  assumes "findExistingConversationID client f subject w = (Inr n, w1)"
    and "\<not> 0 <s n"
  shows "CreateFreeScoutConversation client f subject message w =
           (case client w1 (createConversationRequest f subject message) of
              Inl err \<Rightarrow> Inl err
            | Inr r \<Rightarrow> if StatusCode r div 100 \<noteq> 2
                        then Inl (StatusError (StatusCode r) (TrimSpace (RespBody r)))
                        else Inr (case ParseInt (headerGet (RespHeader r) ''Resource-ID'') of
                                    None \<Rightarrow> 0 | Some k \<Rightarrow> k),
            w1 @ [createConversationRequest f subject message])"
  using assms
  by (simp add: CreateFreeScoutConversation_def httpDo_def Let_def ParseInt_empty
      split: sum.splits option.splits)

text \<open>
  Claim C6, as stated, fails in two ways. When the conversation that the search returns
  has the identifier 0, the client takes it for no match (\<open>existingID > 0\<close>) and sends a
  create-conversation request; the identifier it returns is that of the new conversation.
  When the request that appends the thread fails, the client returns the error and not
  the identifier of the match.
\<close>

theorem CreateFreeScoutConversation_match_counterexample:
  "CreateFreeScoutConversation (serverWith [\<lparr>freeScoutConversation.ID = 0\<rparr>]) plainClient ''subject'' ''message'' []
     = (Inr 77, [searchRequest plainClient ''subject'',
                 createConversationRequest plainClient ''subject'' ''message'']) \<and>
   CreateFreeScoutConversation appendFailsServer plainClient ''subject'' ''message'' []
     = (Inl (StatusError 500 ''internal error''),
        [searchRequest plainClient ''subject'', threadRequest plainClient 42 ''message''])"
proof -
  have pos: "(0::int64) <s 42"
    by (simp add: word_sless_alt)
  have get: "Method (searchRequest plainClient ''subject'') = ''GET''"
    by (simp add: searchRequest_def)
  have post: "Method (threadRequest plainClient 42 ''message'') = ''POST''"
    by (simp add: threadRequest_def)
  have a: "CreateFreeScoutConversation (serverWith [\<lparr>freeScoutConversation.ID = 0\<rparr>]) plainClient
             ''subject'' ''message'' []
           = (Inr 77, [searchRequest plainClient ''subject'',
                       createConversationRequest plainClient ''subject'' ''message''])"
    by (simp add: CreateFreeScoutConversation_def findExistingConversationID_def httpDo_def
        serverWith_def headerGet_Resource_ID ParseInt_77)
  have b: "CreateFreeScoutConversation appendFailsServer plainClient ''subject'' ''message'' []
           = (Inl (StatusError 500 ''internal error''),
              [searchRequest plainClient ''subject'', threadRequest plainClient 42 ''message''])"
    by (simp add: CreateFreeScoutConversation_def findExistingConversationID_def
        createFreeScoutThread_def httpDo_def appendFailsServer_def get post TrimSpace_internal_error pos)
  show ?thesis
    using a b by simp
qed

text \<open>
  Claim C6, amended. The search is a GET request for the conversations of the mailbox
  that are active and have the subject, sorted by the time of their last update in
  ascending order, page 1 of size 1. The server answers it with a list of conversations. When
  the first of them has a positive identifier, the client sends, after the search, one
  request that appends a thread with the message to that conversation, and no
  create-conversation request; it returns the identifier of that conversation when the
  append succeeds, and the error of the append otherwise. When the list is empty, or
  the identifier of its first conversation is 0 or less, the client sends, after the
  search, one create-conversation request and no request that appends a thread; the
  payload has the subject and one thread with the message, and the client returns the
  error of that request, or the identifier in the header \<open>Resource-ID\<close> of the
  response, 0 when the header is absent or not a number.
\<close>

theorem CreateFreeScoutConversation_append_or_create:
  assumes "client w (searchRequest f subject) = Inr resp"
    and "StatusCode resp div 100 = 2"
    and "RespJSON resp = Inr payload"
  shows "Method (searchRequest f subject) = ''GET'' \<and>
         Endpoint (searchRequest f subject) = URL (opts f) @ ''/api/conversations'' \<and>
         Params (searchRequest f subject)
           = [(''embed'', ''threads''),
              (''mailboxId'', FormatInt (sint (FreeScoutOptions.MailboxID (opts f)))),
              (''status'', ''active''), (''state'', ''published''), (''type'', ''email''),
              (''customerEmail'', CustomerEmail (opts f)), (''subject'', subject),
              (''sortField'', ''updatedAt''), (''sortOrder'', ''asc''),
              (''page'', ''1''), (''pageSize'', ''1'')] \<and>
         Method (threadRequest f n message) = ''POST'' \<and>
         Endpoint (threadRequest f n message)
           = URL (opts f) @ ''/api/conversations/'' @ FormatInt (sint n) @ ''/threads'' \<and>
         Method (createConversationRequest f subject message) = ''POST'' \<and>
         Endpoint (createConversationRequest f subject message) = URL (opts f) @ ''/api/conversations'' \<and>
         (\<forall>c cs. Conversations payload = c # cs \<and> 0 <s freeScoutConversation.ID c \<longrightarrow>
            snd (CreateFreeScoutConversation client f subject message w)
              = w @ [searchRequest f subject, threadRequest f (freeScoutConversation.ID c) message] \<and>
            filter isCreateConversation [searchRequest f subject, threadRequest f (freeScoutConversation.ID c) message] = [] \<and>
            (\<exists>p. Body (threadRequest f (freeScoutConversation.ID c) message) = ThreadBody p \<and>
                 freeScoutThreadPayload.Text p = message) \<and>
            fst (CreateFreeScoutConversation client f subject message w)
              = (case client (w @ [searchRequest f subject])
                        (threadRequest f (freeScoutConversation.ID c) message) of
                   Inl err \<Rightarrow> Inl err
                 | Inr r \<Rightarrow> if StatusCode r div 100 = 2 then Inr (freeScoutConversation.ID c)
                             else Inl (StatusError (StatusCode r) (TrimSpace (RespBody r))))) \<and>
         ((Conversations payload = [] \<or>
           (\<exists>c cs. Conversations payload = c # cs \<and> freeScoutConversation.ID c \<le>s 0)) \<longrightarrow>
            snd (CreateFreeScoutConversation client f subject message w)
              = w @ [searchRequest f subject, createConversationRequest f subject message] \<and>
            filter isAppendThread [searchRequest f subject, createConversationRequest f subject message] = [] \<and>
            (\<exists>p. Body (createConversationRequest f subject message) = ConversationBody p \<and>
                 Subject p = subject \<and> map freeScoutThread.Text (Threads p) = [message]) \<and>
            fst (CreateFreeScoutConversation client f subject message w)
              = (case client (w @ [searchRequest f subject]) (createConversationRequest f subject message) of
                   Inl err \<Rightarrow> Inl err
                 | Inr r \<Rightarrow>
                     if StatusCode r div 100 = 2
                     then Inr (case ParseInt (headerGet (RespHeader r) ''Resource-ID'') of
                                 None \<Rightarrow> 0 | Some n \<Rightarrow> n)
                     else Inl (StatusError (StatusCode r) (TrimSpace (RespBody r)))))"
proof (intro conjI allI impI)
  show "Method (searchRequest f subject) = ''GET''"
    and "Endpoint (searchRequest f subject) = URL (opts f) @ ''/api/conversations''"
    and "Params (searchRequest f subject)
           = [(''embed'', ''threads''),
              (''mailboxId'', FormatInt (sint (FreeScoutOptions.MailboxID (opts f)))),
              (''status'', ''active''), (''state'', ''published''), (''type'', ''email''),
              (''customerEmail'', CustomerEmail (opts f)), (''subject'', subject),
              (''sortField'', ''updatedAt''), (''sortOrder'', ''asc''),
              (''page'', ''1''), (''pageSize'', ''1'')]"
    by (simp_all add: searchRequest_def)
  show "Method (threadRequest f n message) = ''POST''"
    and "Endpoint (threadRequest f n message)
           = URL (opts f) @ ''/api/conversations/'' @ FormatInt (sint n) @ ''/threads''"
    by (simp_all add: threadRequest_def)
  show "Method (createConversationRequest f subject message) = ''POST''"
    and "Endpoint (createConversationRequest f subject message) = URL (opts f) @ ''/api/conversations''"
    by (simp_all add: createConversationRequest_def)
next
  fix c cs
  assume m: "Conversations payload = c # cs \<and> 0 <s freeScoutConversation.ID c"
  let ?n = "freeScoutConversation.ID c"
  have found: "findExistingConversationID client f subject w = (Inr ?n, w @ [searchRequest f subject])"
    using findExistingConversationID_answered [where client = client and w = w, OF assms] m by simp
  note app = CreateFreeScoutConversation_appends [OF found, of message]
  show "snd (CreateFreeScoutConversation client f subject message w)
          = w @ [searchRequest f subject, threadRequest f ?n message]"
    using app m by simp
  show "filter isCreateConversation [searchRequest f subject, threadRequest f ?n message] = []"
    by (simp add: request_kinds)
  show "\<exists>p. Body (threadRequest f ?n message) = ThreadBody p \<and> freeScoutThreadPayload.Text p = message"
    by (simp add: threadRequest_def)
  show "fst (CreateFreeScoutConversation client f subject message w)
          = (case client (w @ [searchRequest f subject]) (threadRequest f ?n message) of
               Inl err \<Rightarrow> Inl err
             | Inr r \<Rightarrow> if StatusCode r div 100 = 2 then Inr ?n
                         else Inl (StatusError (StatusCode r) (TrimSpace (RespBody r))))"
    using app m by (simp split: sum.splits)
next
  assume e: "Conversations payload = [] \<or>
             (\<exists>c cs. Conversations payload = c # cs \<and> freeScoutConversation.ID c \<le>s 0)"
  define n where "n = (case Conversations payload of [] \<Rightarrow> 0 | c # _ \<Rightarrow> freeScoutConversation.ID c)"
  have found: "findExistingConversationID client f subject w = (Inr n, w @ [searchRequest f subject])"
    using findExistingConversationID_answered [where client = client and w = w, OF assms]
    by (simp add: n_def)
  have nonpos: "\<not> 0 <s n"
    using e by (auto simp add: n_def word_sless_alt word_sle_eq)
  note cre = CreateFreeScoutConversation_creates [OF found nonpos, of message]
  show "snd (CreateFreeScoutConversation client f subject message w)
          = w @ [searchRequest f subject, createConversationRequest f subject message]"
    using cre by simp
  show "filter isAppendThread [searchRequest f subject, createConversationRequest f subject message] = []"
    by (simp add: request_kinds)
  show "\<exists>p. Body (createConversationRequest f subject message) = ConversationBody p \<and>
            Subject p = subject \<and> map freeScoutThread.Text (Threads p) = [message]"
    by (simp add: createConversationRequest_def)
  show "fst (CreateFreeScoutConversation client f subject message w)
          = (case client (w @ [searchRequest f subject]) (createConversationRequest f subject message) of
               Inl err \<Rightarrow> Inl err
             | Inr r \<Rightarrow>
                 if StatusCode r div 100 = 2
                 then Inr (case ParseInt (headerGet (RespHeader r) ''Resource-ID'') of
                             None \<Rightarrow> 0 | Some n \<Rightarrow> n)
                 else Inl (StatusError (StatusCode r) (TrimSpace (RespBody r))))"
    using cre by (simp split: sum.splits)
qed

theorem CreateFreeScoutConversation_append_or_create_witness:
  "CreateFreeScoutConversation (serverWith [\<lparr>freeScoutConversation.ID = 42\<rparr>]) plainClient ''subject'' ''message'' []
     = (Inr 42, [searchRequest plainClient ''subject'', threadRequest plainClient 42 ''message'']) \<and>
   CreateFreeScoutConversation (serverWith []) plainClient ''subject'' ''message'' []
     = (Inr 77, [searchRequest plainClient ''subject'',
                 createConversationRequest plainClient ''subject'' ''message'']) \<and>
   CreateFreeScoutConversation (serverWith [\<lparr>freeScoutConversation.ID = - 5\<rparr>]) plainClient ''subject'' ''message'' []
     = (Inr 77, [searchRequest plainClient ''subject'',
                 createConversationRequest plainClient ''subject'' ''message''])"
proof -
  let ?resp = "\<lambda>cs. \<lparr>StatusCode = 200, RespHeader = [(''Resource-Id'', ''77'')], RespBody = [],
                      RespJSON = Inr \<lparr>Conversations = cs\<rparr>\<rparr>"
  have pos: "(0::int64) <s 42"
    by (simp add: word_sless_alt)
  have neg: "(- 5::int64) \<le>s 0"
    by (simp add: word_sle_eq)
  have srv: "serverWith cs w r = Inr (?resp cs)" for cs w r
    by (simp add: serverWith_def)
  have ok: "StatusCode (?resp cs) div 100 = 2" for cs
    by simp
  have js: "RespJSON (?resp cs) = Inr \<lparr>Conversations = cs\<rparr>" for cs
    by simp
  from CreateFreeScoutConversation_append_or_create
         [where client = "serverWith [\<lparr>freeScoutConversation.ID = 42\<rparr>]" and w = "[]"
            and message = "''message''", OF srv ok js] pos
  have a: "CreateFreeScoutConversation (serverWith [\<lparr>freeScoutConversation.ID = 42\<rparr>]) plainClient
             ''subject'' ''message'' []
           = (Inr 42, [searchRequest plainClient ''subject'', threadRequest plainClient 42 ''message''])"
    by (simp add: prod_eq_iff srv)
  from CreateFreeScoutConversation_append_or_create
         [where client = "serverWith []" and w = "[]" and message = "''message''", OF srv ok js]
  have b: "CreateFreeScoutConversation (serverWith []) plainClient ''subject'' ''message'' []
           = (Inr 77, [searchRequest plainClient ''subject'',
                       createConversationRequest plainClient ''subject'' ''message''])"
    by (simp add: prod_eq_iff srv headerGet_Resource_ID ParseInt_77)
  from CreateFreeScoutConversation_append_or_create
         [where client = "serverWith [\<lparr>freeScoutConversation.ID = - 5\<rparr>]" and w = "[]"
            and message = "''message''", OF srv ok js] neg
  have c: "CreateFreeScoutConversation (serverWith [\<lparr>freeScoutConversation.ID = - 5\<rparr>]) plainClient
             ''subject'' ''message'' []
           = (Inr 77, [searchRequest plainClient ''subject'',
                       createConversationRequest plainClient ''subject'' ''message''])"
    by (simp add: prod_eq_iff srv headerGet_Resource_ID ParseInt_77)
  show ?thesis
    using a b c by simp
qed

section \<open>The host lists of the bodies\<close>

lemma listedHosts_take: "listedHosts hosts = take 50 hosts"
  by (simp add: listedHosts_def Let_def)

lemma FormatUint_60: "FormatUint 60 = ''60''"
  by code_simp


lemma length_sixtyHosts: "length sixtyHosts = 60"
  by (simp add: sixtyHosts_def)








text \<open>
  Scenario A from end to end, with a server that knows no conversation of the subject:
  \<open>Run\<close> returns nil, and the requests sent are the search for the summary and the
  creation of a conversation whose subject is the summary and whose thread is the body
  of the first 50 hosts.
\<close>

lemma Run_scenario_A:
  "fst (Run (sampleEnv (serverWith [])) (sampleProcessor [integrationOf plainOptions] sixtyHosts)
          (Inr vulnJob) []) = None \<and>
   snd (snd (Run (sampleEnv (serverWith [])) (sampleProcessor [integrationOf plainOptions] sixtyHosts)
          (Inr vulnJob) []))
     = [searchRequest plainClient ''Vulnerability CVE-2024-0001 detected on 60 host(s)'',
        createConversationRequest plainClient ''Vulnerability CVE-2024-0001 detected on 60 host(s)''
          (VulnDescription (\<lambda>_. []) (\<lambda>_. []) (scenarioTplArgs (take 50 sixtyHosts)))]"
proof -
  define env where "env = sampleEnv (serverWith [])"
  define P where "P = sampleProcessor [integrationOf plainOptions] sixtyHosts"
  define P1 where "P1 = P\<lparr>clientsCache := Some ((cacheEntries (clientsCache P))(''vuln:'' \<mapsto> Some plainClient)),
                          newClientCalls := newClientCalls P @ [plainOptions]\<rparr>"
  define S where "S = ''Vulnerability CVE-2024-0001 detected on 60 host(s)''"
  define B where "B = VulnDescription (\<lambda>_. []) (\<lambda>_. []) (scenarioTplArgs (take 50 sixtyHosts))"
  have new: "NewClientFunc P plainOptions = Inr (Some plainClient)"
    by (simp add: P_def plainClient_def sampleProcessor_def newFreeScoutClient_def New_plain)
  have "getClient_locked (iface env) P ''vuln:'' (Some plainOptions) =
          (case NewClientFunc P plainOptions of
             Inl err \<Rightarrow> (Inl err, P\<lparr>clientsCache := Some (cacheEntries (clientsCache P)),
                                      newClientCalls := newClientCalls P @ [plainOptions]\<rparr>)
           | Inr cli' \<Rightarrow> (Inr cli', P\<lparr>clientsCache := Some ((cacheEntries (clientsCache P))(''vuln:'' \<mapsto> cli')),
                                      newClientCalls := newClientCalls P @ [plainOptions]\<rparr>))"
    by (rule getClient_locked_miss) (simp add: P_def sampleProcessor_lookup)
  then have locked: "getClient_locked (iface env) P ''vuln:'' (Some plainOptions) = (Inr (Some plainClient), P1)"
    by (simp add: new P1_def)
  have "getClient_resolve (MatchWithIntegrations env) P vulnJob = Inr (''vuln:'', Some plainOptions)"
    unfolding P_def by (rule resolve_vulnJob)
  then have client: "getClient (iface env) (MatchWithIntegrations env) P vulnJob = (Inr (Some plainClient), P1)"
    by (simp add: getClient_def locked)
  have hosts: "HostVulnSummariesBySoftwareIDs (Datastore P1) [1, 2] = Inr sixtyHosts"
    by (simp add: P1_def P_def sampleProcessor_def sampleDatastore_def)
  have args: "\<lparr>NVDURL = nvdCVEURL env,
              freeScoutVulnTplArgs.FleetURL = worker_FreeScout.FleetURL P1,
              freeScoutVulnTplArgs.CVE = ''CVE-2024-0001'',
              freeScoutVulnTplArgs.Hosts = sixtyHosts,
              freeScoutVulnTplArgs.EPSSProbability = None,
              freeScoutVulnTplArgs.CVSSScore = None,
              freeScoutVulnTplArgs.CISAKnownExploit = None,
              freeScoutVulnTplArgs.CVEPublished = None\<rparr> = scenarioTplArgs sixtyHosts"
    by (simp add: scenarioTplArgs_def env_def sampleEnv_def P1_def P_def sampleProcessor_def)
  have summary: "VulnSummary (scenarioTplArgs sixtyHosts) = S"
    by (simp add: S_def VulnSummary_def scenarioTplArgs_def length_sixtyHosts FormatUint_60)
  have body: "VulnDescription (fmtFloat env) (fmtTime env) (scenarioTplArgs sixtyHosts) = B"
    by (simp add: B_def env_def sampleEnv_def VulnDescription_def vulnDescriptionHead_def
        vulnDescriptionTail_def listedHosts_take scenarioTplArgs_def)
  have answer: "serverWith [] [] (searchRequest plainClient S)
                  = Inr \<lparr>StatusCode = 200, RespHeader = [(''Resource-Id'', ''77'')], RespBody = [],
                          RespJSON = Inr \<lparr>Conversations = []\<rparr>\<rparr>"
    by (simp add: serverWith_def)
  have found: "findExistingConversationID (serverWith []) plainClient S [] = (Inr 0, [searchRequest plainClient S])"
    using findExistingConversationID_answered [where client = "serverWith []" and w = "[]", OF answer]
    by simp
  have "CreateFreeScoutConversation (serverWith []) plainClient S B []
          = (Inr 77, [searchRequest plainClient S, createConversationRequest plainClient S B])"
    by (simp add: CreateFreeScoutConversation_def found)
       (simp add: httpDo_def serverWith_def headerGet_Resource_ID ParseInt_77)
  then have create: "clientCreateConversation (iface env) plainClient S B []
                  = (Inr 77, [searchRequest plainClient S, createConversationRequest plainClient S B])"
    by (simp add: env_def sampleEnv_def externalsvc_client_def)
  have "runVuln env P1 plainClient vulnJob []
          = (None, [searchRequest plainClient S, createConversationRequest plainClient S B])"
    by (simp add: runVuln_def vulnJob_def hosts args createTemplatedConversation_def summary body create)
  moreover have "integrationType vulnJob = intgTypeVuln"
    by (simp add: integrationType_def vulnJob_def)
  ultimately have "Run env P (Inr vulnJob) []
          = (None, P1, [searchRequest plainClient S, createConversationRequest plainClient S B])"
    by (simp add: Run_def client)
  then show ?thesis
    by (simp add: env_def P_def S_def B_def)
qed

section \<open>Run\<close>

text \<open>
  Claim C8, as stated, fails for the payload \<open>{}\<close> when no integration is enabled: \<open>Run\<close>
  finds no client and returns nil before it looks at the payload.
\<close>

theorem Run_missing_payload_counterexample:
  "fst (Run (sampleEnv noServer) (sampleProcessor [] []) (Inr emptyJob) []) = None \<and>
   snd (snd (Run (sampleEnv noServer) (sampleProcessor [] []) (Inr emptyJob) [])) = []"
  by (simp add: Run_def getClient_def getClient_resolve_def getClient_locked_def sampleEnv_def
      sampleProcessor_def sampleDatastore_def emptyJob_def integrationType_def)

text \<open>
  Claim C8, amended. The payload with neither key runs as a vulnerability job of the
  global configuration (key "vuln:"). \<open>Run\<close> returns an error for it when \<open>getClient\<close>
  fails (that error, labelled) and when \<open>getClient\<close> finds a client (the error
  "invalid job args"); when \<open>getClient\<close> finds none, because no integration is enabled for
  vulnerabilities, \<open>Run\<close> returns nil. In each case no request is sent.
\<close>

theorem Run_missing_payload:
  "getClient_resolve (MatchWithIntegrations env) f emptyJob
     = (case AppConfig (Datastore f) of
          Inl err \<Rightarrow> Inl err
        | Inr ac \<Rightarrow> Inr (''vuln:'', map_option optionsOf
                                      (find EnableSoftwareVulnerabilities (Freescout (Integrations ac))))) \<and>
   fst (Run env f (Inr emptyJob) w)
     = (case fst (getClient (iface env) (MatchWithIntegrations env) f emptyJob) of
          Inl err \<Rightarrow> Some (Wrap err ''get FreeScout client'')
        | Inr None \<Rightarrow> None
        | Inr (Some cli) \<Rightarrow> Some (Error ''invalid job args'')) \<and>
   snd (snd (Run env f (Inr emptyJob) w)) = w"
proof (intro conjI)
  have "(\<lambda>intg. (intgTypeVuln = intgTypeVuln \<and> EnableSoftwareVulnerabilities intg) \<or>
                 (intgTypeVuln = intgTypeFailingPolicy \<and> EnableFailingPolicies intg))
          = EnableSoftwareVulnerabilities"
    by (auto simp add: intgTypeVuln_def intgTypeFailingPolicy_def)
  then show "getClient_resolve (MatchWithIntegrations env) f emptyJob
     = (case AppConfig (Datastore f) of
          Inl err \<Rightarrow> Inl err
        | Inr ac \<Rightarrow> Inr (''vuln:'', map_option optionsOf
                                      (find EnableSoftwareVulnerabilities (Freescout (Integrations ac)))))"
    by (simp add: getClient_resolve_def emptyJob_def integrationType_def intgTypeVuln_def
        intgTypeFailingPolicy_def split: sum.splits)
  show "fst (Run env f (Inr emptyJob) w)
     = (case fst (getClient (iface env) (MatchWithIntegrations env) f emptyJob) of
          Inl err \<Rightarrow> Some (Wrap err ''get FreeScout client'')
        | Inr None \<Rightarrow> None
        | Inr (Some cli) \<Rightarrow> Some (Error ''invalid job args''))"
    by (simp add: Run_def runVuln_def emptyJob_def integrationType_def
        split: prod.splits sum.splits option.splits)
  show "snd (snd (Run env f (Inr emptyJob) w)) = w"
    by (simp add: Run_def runVuln_def emptyJob_def integrationType_def
        split: prod.splits sum.splits option.splits)
qed

end
